theory Spec2Isabelle
  imports Main "HOL-Library.Word"
begin

section \<open>JavaScript strings\<close>

text \<open>
  A JavaScript string is a sequence of UTF-16 code units; \<open>input.length\<close> counts code
  units and a regular expression without the \<open>u\<close> flag matches code unit by code unit.
  The literals of the source are ASCII, written here through \<open>js\<close>.
\<close>

type_synonym jsstring = "16 word list"

definition js :: "string \<Rightarrow> jsstring" where
  "js s = map of_char s"

text \<open>\<open>!input\<close> for \<open>input: string | null | undefined\<close>: \<open>None\<close> stands for null and
  undefined, and the empty string is falsy too.\<close>

definition falsy :: "jsstring option \<Rightarrow> bool" where
  "falsy input = (case input of None \<Rightarrow> True | Some s \<Rightarrow> s = [])"

text \<open>A template literal \<open>`${x}`\<close> prints an undefined value as the text \<open>undefined\<close>.\<close>

definition tpl :: "jsstring option \<Rightarrow> jsstring" where
  "tpl x = (case x of None \<Rightarrow> js ''undefined'' | Some s \<Rightarrow> s)"

section \<open>Regular expressions of the prompts\<close>

text \<open>
  The three regular expressions of \<open>utils.ts\<close> are sequences of single-character atoms,
  optionally followed by \<open>?\<close> or \<open>+\<close>, between the anchors \<open>^\<close> and \<open>$\<close>. No flag is set:
  \<open>^\<close> holds at index 0 only, \<open>$\<close> at the end of the input only, and \<open>.\<close> is every code
  unit but the four line terminators.
\<close>

datatype atom = Chr "16 word" | Class "(16 word \<times> 16 word) list" | Dot

datatype rterm = One atom | Opt atom | Plus atom | Bol | Eol

type_synonym regex = "rterm list"

definition line_terminator :: "16 word \<Rightarrow> bool" where
  "line_terminator c = (c = 0x0A \<or> c = 0x0D \<or> c = 0x2028 \<or> c = 0x2029)"

fun atom_matches :: "atom \<Rightarrow> 16 word \<Rightarrow> bool" where
  "atom_matches (Chr c) x = (x = c)"
| "atom_matches (Class rs) x = list_ex (\<lambda>r. fst r \<le> x \<and> x \<le> snd r) rs"
| "atom_matches Dot x = (\<not> line_terminator x)"

text \<open>\<open>match_here r at_start s\<close>: the pattern \<open>r\<close> matches a prefix of the rest \<open>s\<close> of the
  input; \<open>at_start\<close> tells whether \<open>s\<close> is the whole input.\<close>

fun match_here :: "regex \<Rightarrow> bool \<Rightarrow> jsstring \<Rightarrow> bool" where
  "match_here [] at_start s = True"
| "match_here (Bol # r) at_start s = (at_start \<and> match_here r at_start s)"
| "match_here (Eol # r) at_start s = (s = [] \<and> match_here r at_start s)"
| "match_here (One a # r) at_start [] = False"
| "match_here (One a # r) at_start (c # t) = (atom_matches a c \<and> match_here r False t)"
| "match_here (Opt a # r) at_start [] = match_here r at_start []"
| "match_here (Opt a # r) at_start (c # t) =
     ((atom_matches a c \<and> match_here r False t) \<or> match_here r at_start (c # t))"
| "match_here (Plus a # r) at_start [] = False"
| "match_here (Plus a # r) at_start (c # t) =
     (atom_matches a c \<and> (match_here (Plus a # r) False t \<or> match_here r False t))"

text \<open>\<open>RegExp.prototype.test\<close> without the \<open>g\<close> and \<open>y\<close> flags: a match may start at any
  index, from 0 to the length of the input.\<close>

fun search :: "regex \<Rightarrow> bool \<Rightarrow> jsstring \<Rightarrow> bool" where
  "search r at_start [] = match_here r at_start []"
| "search r at_start (c # t) = (match_here r at_start (c # t) \<or> search r False t)"

definition regex_test :: "regex \<Rightarrow> jsstring \<Rightarrow> bool" where
  "regex_test r s = search r True s"

definition chr :: "char \<Rightarrow> rterm" where
  "chr c = One (Chr (of_char c))"

definition cls_range :: "char \<Rightarrow> char \<Rightarrow> 16 word \<times> 16 word" where
  "cls_range lo hi = (of_char lo, of_char hi)"

definition cls_char :: "char \<Rightarrow> 16 word \<times> 16 word" where
  "cls_char c = (of_char c, of_char c)"

text \<open>\<open>/^[a-z0-9.-]+$/\<close>\<close>

definition bucketName_re :: regex where
  "bucketName_re =
     [Bol,
      Plus (Class [cls_range CHR ''a'' CHR ''z'', cls_range CHR ''0'' CHR ''9'',
                   cls_char CHR ''.'', cls_char CHR ''-'']),
      Eol]"

text \<open>\<open>/^[a-zA-Z0-9+=,.@_-]+$/\<close>, written twice in the source: for the username and for the
  policy name.\<close>

definition username_re :: regex where
  "username_re =
     [Bol,
      Plus (Class [cls_range CHR ''a'' CHR ''z'', cls_range CHR ''A'' CHR ''Z'',
                   cls_range CHR ''0'' CHR ''9'', cls_char CHR ''+'', cls_char CHR ''='',
                   cls_char CHR '','', cls_char CHR ''.'', cls_char CHR ''@'', cls_char CHR ''_'',
                   cls_char CHR ''-'']),
      Eol]"

definition policyName_re :: regex where
  "policyName_re =
     [Bol,
      Plus (Class [cls_range CHR ''a'' CHR ''z'', cls_range CHR ''A'' CHR ''Z'',
                   cls_range CHR ''0'' CHR ''9'', cls_char CHR ''+'', cls_char CHR ''='',
                   cls_char CHR '','', cls_char CHR ''.'', cls_char CHR ''@'', cls_char CHR ''_'',
                   cls_char CHR ''-'']),
      Eol]"

text \<open>\<open>/^https?:\/\/.+$/\<close>\<close>

definition appUrl_re :: regex where
  "appUrl_re =
     [Bol, chr CHR ''h'', chr CHR ''t'', chr CHR ''t'', chr CHR ''p'', Opt (Chr (of_char CHR ''s'')),
      chr CHR '':'', chr CHR ''/'', chr CHR ''/'', Plus Dot, Eol]"

section \<open>JSON values and the policy schema\<close>

text \<open>
  The values \<open>JSON.parse\<close> returns and object literals denote. An object is the list of its
  own properties in insertion order; a property is read by its key (the keys of a parsed
  object are distinct). The numbers are IEEE doubles, of which nothing is used here.
\<close>

typedecl js_number

datatype json =
    JNull
  | JBool bool
  | JNumber js_number
  | JString jsstring
  | JArray "json list"
  | JObject "(jsstring \<times> json) list"

text \<open>
  The part of zod the schema is written in: \<open>z.string()\<close>, \<open>z.literal(s)\<close>,
  \<open>z.array(e)\<close> with an optional \<open>.min(n, {message})\<close>, and \<open>z.object(shape)\<close>, which reads
  the keys of its shape and ignores every other key of the input. A schema applied to a
  missing property sees \<open>undefined\<close>, here \<open>None\<close>. Parsing collects the issues of the whole
  value; it succeeds when there is none.
\<close>

datatype zod_schema =
    ZString
  | ZLiteral jsstring
  | ZArray zod_schema "(nat \<times> jsstring) option"
  | ZObject "(jsstring \<times> zod_schema) list"

datatype zod_issue = Invalid_type | Invalid_literal | Too_small jsstring

fun zod_issues :: "zod_schema \<Rightarrow> json option \<Rightarrow> zod_issue list" where
  "zod_issues ZString v =
     (case v of Some (JString s) \<Rightarrow> [] | _ \<Rightarrow> [Invalid_type])"
| "zod_issues (ZLiteral l) v =
     (case v of
        Some (JString s) \<Rightarrow> if s = l then [] else [Invalid_literal]
      | _ \<Rightarrow> [Invalid_literal])"
| "zod_issues (ZArray element minLength) v =
     (case v of
        Some (JArray xs) \<Rightarrow>
          (case minLength of
             Some (n, message) \<Rightarrow> if length xs < n then [Too_small message] else []
           | None \<Rightarrow> [])
          @ concat (map (\<lambda>x. zod_issues element (Some x)) xs)
      | _ \<Rightarrow> [Invalid_type])"
| "zod_issues (ZObject shape) v =
     (case v of
        Some (JObject props) \<Rightarrow>
          concat (map (\<lambda>field. zod_issues (snd field) (map_of props (fst field))) shape)
      | _ \<Rightarrow> [Invalid_type])"

definition policySchema :: zod_schema where
  "policySchema =
     ZObject
       [(js ''Version'', ZLiteral (js ''2012-10-17'')),
        (js ''Statement'',
         ZArray
           (ZObject
              [(js ''Effect'', ZString),
               (js ''Action'',
                ZArray ZString (Some (1, js ''Policy must have at least one action''))),
               (js ''Resource'',
                ZArray ZString (Some (1, js ''Policy must have at least one resource'')))])
           None)]"

section \<open>Validators of the prompts\<close>

text \<open>A \<open>validate\<close> function returns \<open>true\<close> or the message shown to the operator; for a
  \<open>ZodError\<close> the message is the messages of its issues, joined by commas.\<close>

datatype validation = Valid | Invalid jsstring | Invalid_zod "zod_issue list"

definition bucketName_validate :: "jsstring option \<Rightarrow> validation" where
  "bucketName_validate input =
     (case input of
        None \<Rightarrow> Invalid (js ''Please enter a bucket name'')
      | Some s \<Rightarrow>
          if s = [] then Invalid (js ''Please enter a bucket name'')
          else if length s < 3 then
            Invalid (js ''Bucket name must be at least 3 characters long'')
          else if length s > 63 then
            Invalid (js ''Bucket name must be less than 63 characters long'')
          else if \<not> regex_test bucketName_re s then
            Invalid (js ''Bucket name must be lowercase and contain only letters, numbers, periods, and hyphens'')
          else Valid)"

definition username_validate :: "jsstring option \<Rightarrow> validation" where
  "username_validate input =
     (case input of
        None \<Rightarrow> Invalid (js ''Please enter a username'')
      | Some s \<Rightarrow>
          if s = [] then Invalid (js ''Please enter a username'')
          else if length s < 3 then
            Invalid (js ''Username must be at least 3 characters long'')
          else if length s > 63 then
            Invalid (js ''Username must be less than 63 characters long'')
          else if \<not> regex_test username_re s then
            Invalid (js ''Username must contain only letters, numbers, and the following characters: +=,.@_-'')
          else Valid)"

definition appUrl_validate :: "jsstring option \<Rightarrow> validation" where
  "appUrl_validate input =
     (case input of
        None \<Rightarrow> Invalid (js ''Please enter an app URL'')
      | Some s \<Rightarrow>
          if s = [] then Invalid (js ''Please enter an app URL'')
          else if \<not> regex_test appUrl_re s then
            Invalid (js ''App URL must be a valid URL'')
          else Valid)"

definition appUrl_default :: jsstring where
  "appUrl_default = js ''http://localhost:3000''"

definition policyName_validate :: "jsstring option \<Rightarrow> validation" where
  "policyName_validate input =
     (case input of
        None \<Rightarrow> Invalid (js ''Please enter a policy name'')
      | Some s \<Rightarrow>
          if s = [] then Invalid (js ''Please enter a policy name'')
          else if length s < 3 then
            Invalid (js ''Policy name must be at least 3 characters long'')
          else if length s > 63 then
            Invalid (js ''Policy name must be less than 63 characters long'')
          else if \<not> regex_test policyName_re s then
            Invalid (js ''Policy name must contain only letters, numbers, and the following characters: +=,.@_-'')
          else Valid)"

text \<open>
  The \<open>validate\<close> of the question \<open>policies\<close> of \<open>customPolicyPrompt\<close>, from the outcome of
  \<open>JSON.parse\<close> on (\<open>None\<close>: it threw a \<open>SyntaxError\<close>, which is no \<open>ZodError\<close>).
\<close>

definition policies_validate_parsed :: "json option \<Rightarrow> validation" where
  "policies_validate_parsed parsed =
     (case parsed of
        None \<Rightarrow> Invalid (js ''Please enter a valid JSON object'')
      | Some parsedFile \<Rightarrow>
          (case zod_issues policySchema (Some parsedFile) of
             [] \<Rightarrow> Valid
           | issue # issues \<Rightarrow> Invalid_zod (issue # issues)))"

section \<open>Input questions\<close>

text \<open>
  An \<open>input\<close> question of inquirer. The operator's successive entries are a list. A blank
  entry stands for the default of the question (the empty string without one); the entry
  is then validated, and the prompt returns the first entry that passes. \<open>None\<close>: the
  entries ran out and the prompt is still open.
\<close>

record input_question =
  default_value :: "jsstring option"
  validate :: "jsstring option \<Rightarrow> validation"

fun input_prompt :: "input_question \<Rightarrow> jsstring list \<Rightarrow> jsstring option" where
  "input_prompt q [] = None"
| "input_prompt q (entry # entries) =
     (let answer =
        (if entry = [] then (case default_value q of None \<Rightarrow> [] | Some d \<Rightarrow> d)
         else entry)
      in if validate q (Some answer) = Valid then Some answer
         else input_prompt q entries)"

definition bucketName_question :: input_question where
  "bucketName_question = \<lparr>default_value = None, validate = bucketName_validate\<rparr>"

definition username_question :: input_question where
  "username_question = \<lparr>default_value = None, validate = username_validate\<rparr>"

definition appUrl_question :: input_question where
  "appUrl_question = \<lparr>default_value = Some appUrl_default, validate = appUrl_validate\<rparr>"

definition policyName_question :: input_question where
  "policyName_question = \<lparr>default_value = None, validate = policyName_validate\<rparr>"

section \<open>The world of a run\<close>

text \<open>
  What a run reads: the environment variables, the answers of the AWS control plane, and
  three built-ins of the runtime, which are taken as given. \<open>JSON_stringify v n\<close> is
  \<open>JSON.stringify(v, null, n)\<close>, with \<open>n = 0\<close> for \<open>JSON.stringify(v)\<close>.
  \<open>Bun_openInEditor path\<close> is the message \<open>openInEditor(path)\<close> throws with when it opens no
  editor (none is found, say), and \<open>None\<close> when it opens one.
\<close>

record bun_env =
  AWS_ACCESS_KEY_ID :: "jsstring option"
  AWS_SECRET_ACCESS_KEY :: "jsstring option"
  AWS_DEFAULT_REGION :: "jsstring option"
  AWS_ACCOUNT_ID :: "jsstring option"

record client_config =
  client_region :: "jsstring option"
  accessKeyId :: "jsstring option"
  secretAccessKey :: "jsstring option"

record cors_rule =
  AllowedHeaders :: "jsstring list"
  AllowedMethods :: "jsstring list"
  AllowedOrigins :: "jsstring list"
  ExposeHeaders :: "jsstring list"
  MaxAgeSeconds :: nat

record public_access_block =
  BlockPublicAcls :: bool
  IgnorePublicAcls :: bool
  RestrictPublicBuckets :: bool
  BlockPublicPolicy :: bool

datatype aws_request =
    IAM_createUser jsstring
  | IAM_createPolicy jsstring jsstring
  | IAM_createAccessKey jsstring
  | IAM_attachUserPolicy jsstring jsstring
  | S3_createBucket jsstring
  | S3_putBucketCors jsstring "cors_rule list"
  | S3_putPublicAccessBlock jsstring public_access_block
  | S3_putBucketPolicy jsstring jsstring
  | S3_putObject jsstring jsstring

record access_key =
  AccessKeyId :: "jsstring option"
  SecretAccessKey :: "jsstring option"

record aws_output =
  AccessKey :: "access_key option"

datatype js_error = Aws_error jsstring | Error jsstring | SyntaxError | ENOENT jsstring

record platform =
  env :: bun_env
  aws :: "client_config \<Rightarrow> aws_request \<Rightarrow> jsstring + aws_output"
  JSON_parse :: "jsstring \<Rightarrow> json option"
  JSON_stringify :: "json \<Rightarrow> nat \<Rightarrow> jsstring"
  Bun_openInEditor :: "jsstring \<Rightarrow> jsstring option"

text \<open>What a run does: the files it leaves and, in order, the requests it sends, the lines
  it logs, the files it writes and the editor it opens.\<close>

datatype event =
    Aws_call client_config aws_request
  | Console_log jsstring
  | Write_file jsstring jsstring
  | Open_in_editor jsstring

record world =
  files :: "jsstring \<rightharpoonup> jsstring"
  trace :: "event list"

text \<open>An awaited step returns, throws (which ends the run, nothing being caught), or waits
  for ever on a prompt the operator never answers to its validator's liking.\<close>

datatype 'a outcome = Returned 'a | Threw js_error | Waiting

type_synonym 'a io = "world \<Rightarrow> 'a outcome \<times> world"

definition return :: "'a \<Rightarrow> 'a io" where
  "return x = (\<lambda>w. (Returned x, w))"

definition throw :: "js_error \<Rightarrow> 'a io" where
  "throw e = (\<lambda>w. (Threw e, w))"

definition waiting :: "'a io" where
  "waiting = (\<lambda>w. (Waiting, w))"

definition and_then :: "'a io \<Rightarrow> ('a \<Rightarrow> 'b io) \<Rightarrow> 'b io" where
  "and_then m f =
     (\<lambda>w. case m w of
            (Returned x, w') \<Rightarrow> f x w'
          | (Threw e, w') \<Rightarrow> (Threw e, w')
          | (Waiting, w') \<Rightarrow> (Waiting, w'))"

definition emit :: "event \<Rightarrow> unit io" where
  "emit e = (\<lambda>w. (Returned (), w\<lparr>trace := trace w @ [e]\<rparr>))"

definition console_log :: "jsstring \<Rightarrow> unit io" where
  "console_log line = emit (Console_log line)"

definition openInEditor :: "platform \<Rightarrow> jsstring \<Rightarrow> unit io" where
  "openInEditor P path =
     (case Bun_openInEditor P path of
        None \<Rightarrow> emit (Open_in_editor path)
      | Some message \<Rightarrow> throw (Error message))"

definition writeFileSync :: "jsstring \<Rightarrow> jsstring \<Rightarrow> unit io" where
  "writeFileSync path data =
     (\<lambda>w. (Returned (),
            w\<lparr>files := (files w)(path \<mapsto> data), trace := trace w @ [Write_file path data]\<rparr>))"

definition readFileSync :: "jsstring \<Rightarrow> jsstring io" where
  "readFileSync path =
     (\<lambda>w. case files w path of
            None \<Rightarrow> (Threw (ENOENT path), w)
          | Some data \<Rightarrow> (Returned data, w))"

text \<open>\<open>client.operation(params).promise()\<close>, awaited: the request is sent, and a failure
  of the service is thrown.\<close>

definition aws_send :: "platform \<Rightarrow> client_config \<Rightarrow> aws_request \<Rightarrow> aws_output io" where
  "aws_send P config request =
     (\<lambda>w. let w' = w\<lparr>trace := trace w @ [Aws_call config request]\<rparr>
          in case aws P config request of
               Inl code \<Rightarrow> (Threw (Aws_error code), w')
             | Inr output \<Rightarrow> (Returned output, w'))"

section \<open>The operations of \<open>utils.ts\<close>\<close>

text \<open>\<open>region || Bun.env.AWS_DEFAULT_REGION!\<close>\<close>

definition region_or_default :: "bun_env \<Rightarrow> jsstring option \<Rightarrow> jsstring option" where
  "region_or_default e region = (if falsy region then AWS_DEFAULT_REGION e else region)"

definition createIamObject :: "bun_env \<Rightarrow> jsstring option \<Rightarrow> client_config" where
  "createIamObject e region =
     \<lparr>client_region = region_or_default e region,
      accessKeyId = AWS_ACCESS_KEY_ID e,
      secretAccessKey = AWS_SECRET_ACCESS_KEY e\<rparr>"

definition createS3Object :: "bun_env \<Rightarrow> jsstring option \<Rightarrow> client_config" where
  "createS3Object e region =
     \<lparr>client_region = region_or_default e region,
      accessKeyId = AWS_ACCESS_KEY_ID e,
      secretAccessKey = AWS_SECRET_ACCESS_KEY e\<rparr>"

definition createUser :: "platform \<Rightarrow> jsstring \<Rightarrow> jsstring option \<Rightarrow> unit io" where
  "createUser P username region =
     and_then (aws_send P (createIamObject (env P) region) (IAM_createUser username))
       (\<lambda>_. return ())"

definition createPolicy ::
  "platform \<Rightarrow> jsstring \<Rightarrow> jsstring \<Rightarrow> jsstring option \<Rightarrow> unit io" where
  "createPolicy P policyName policyDocument region =
     and_then
       (aws_send P (createIamObject (env P) region) (IAM_createPolicy policyName policyDocument))
       (\<lambda>_. return ())"

text \<open>\<open>return { ...AccessKey }\<close>: spreading an absent key gives an object without fields.\<close>

definition createAccessKey :: "platform \<Rightarrow> jsstring \<Rightarrow> jsstring option \<Rightarrow> access_key io" where
  "createAccessKey P username region =
     and_then (aws_send P (createIamObject (env P) region) (IAM_createAccessKey username))
       (\<lambda>output. return
          (case AccessKey output of
             None \<Rightarrow> \<lparr>AccessKeyId = None, SecretAccessKey = None\<rparr>
           | Some key \<Rightarrow> key))"

definition attachUserPolicy ::
  "platform \<Rightarrow> jsstring \<Rightarrow> jsstring \<Rightarrow> jsstring option \<Rightarrow> unit io" where
  "attachUserPolicy P username policyArn region =
     and_then
       (aws_send P (createIamObject (env P) region) (IAM_attachUserPolicy username policyArn))
       (\<lambda>_. return ())"

definition createS3Bucket :: "platform \<Rightarrow> jsstring \<Rightarrow> jsstring option \<Rightarrow> unit io" where
  "createS3Bucket P bucketName region =
     and_then (aws_send P (createS3Object (env P) region) (S3_createBucket bucketName))
       (\<lambda>_. return ())"

definition attachBucketCors ::
  "platform \<Rightarrow> jsstring \<Rightarrow> cors_rule list \<Rightarrow> jsstring option \<Rightarrow> unit io" where
  "attachBucketCors P bucketName corsConfiguration region =
     and_then
       (aws_send P (createS3Object (env P) region) (S3_putBucketCors bucketName corsConfiguration))
       (\<lambda>_. return ())"

definition public_bucket_policy :: "jsstring \<Rightarrow> json" where
  "public_bucket_policy bucketName =
     JObject
       [(js ''Version'', JString (js ''2012-10-17'')),
        (js ''Statement'',
         JArray
           [JObject
              [(js ''Sid'', JString (js ''PublicReadGetObject'')),
               (js ''Effect'', JString (js ''Allow'')),
               (js ''Principal'', JString (js ''*'')),
               (js ''Action'', JArray [JString (js ''s3:GetObject'')]),
               (js ''Resource'',
                JArray [JString (js ''arn:aws:s3:::'' @ bucketName @ js ''/public/*'')])]])]"

definition attachPublicBucketPolicy :: "platform \<Rightarrow> jsstring \<Rightarrow> jsstring option \<Rightarrow> unit io" where
  "attachPublicBucketPolicy P bucketName region =
     (let s3 = createS3Object (env P) region in
      and_then
        (aws_send P s3
           (S3_putPublicAccessBlock bucketName
              \<lparr>BlockPublicAcls = False,
               IgnorePublicAcls = False,
               RestrictPublicBuckets = False,
               BlockPublicPolicy = False\<rparr>))
        (\<lambda>_. and_then
           (aws_send P s3
              (S3_putBucketPolicy bucketName
                 (JSON_stringify P (public_bucket_policy bucketName) 0)))
           (\<lambda>_. return ())))"

definition default_user_policy :: "jsstring \<Rightarrow> json" where
  "default_user_policy bucketName =
     JObject
       [(js ''Version'', JString (js ''2012-10-17'')),
        (js ''Statement'',
         JArray
           [JObject
              [(js ''Effect'', JString (js ''Allow'')),
               (js ''Action'',
                JArray [JString (js ''s3:PutObject''), JString (js ''s3:GetObject'')]),
               (js ''Resource'',
                JArray [JString (js ''arn:aws:s3:::'' @ bucketName @ js ''/*'')])]])]"

definition getDefaultUserPolicy :: "platform \<Rightarrow> jsstring \<Rightarrow> jsstring option \<Rightarrow> jsstring io" where
  "getDefaultUserPolicy P bucketName region =
     and_then
       (createPolicy P (js ''default-'' @ bucketName @ js ''-policy'')
          (JSON_stringify P (default_user_policy bucketName) 0) region)
       (\<lambda>_. and_then (console_log (js ''Policy created''))
          (\<lambda>_. return
             (js ''arn:aws:iam::'' @ tpl (AWS_ACCOUNT_ID (env P)) @ js '':policy/default-''
                @ bucketName @ js ''-policy'')))"

definition createBucketFolders :: "platform \<Rightarrow> jsstring \<Rightarrow> jsstring option \<Rightarrow> unit io" where
  "createBucketFolders P bucketName region =
     (let s3 = createS3Object (env P) region in
      and_then (aws_send P s3 (S3_putObject bucketName (js ''public/'')))
        (\<lambda>_. and_then (aws_send P s3 (S3_putObject bucketName (js ''private/'')))
           (\<lambda>_. return ())))"

text \<open>The prompts. The operator is the script of what is typed at each question (and, for
  the policy file, of what the file holds each time the second question is submitted).\<close>

record UserBucketPrompt =
  bucketName :: jsstring
  username :: jsstring
  allowPublicRead :: bool
  region :: "jsstring option"
  defaultPolicy :: bool
  appUrl :: jsstring

record operator =
  bucketName_entries :: "jsstring list"
  username_entries :: "jsstring list"
  appUrl_entries :: "jsstring list"
  allowPublicRead_answer :: bool
  region_entries :: "jsstring list"
  defaultPolicy_answer :: bool
  policyName_entries :: "jsstring list"
  editor_entries :: "jsstring list"
  policy_file_edits :: "jsstring list"

definition region_question :: "bun_env \<Rightarrow> input_question" where
  "region_question e = \<lparr>default_value = AWS_DEFAULT_REGION e, validate = (\<lambda>_. Valid)\<rparr>"

definition userBucketPrompt :: "bun_env \<Rightarrow> operator \<Rightarrow> UserBucketPrompt option" where
  "userBucketPrompt e op =
     (case input_prompt bucketName_question (bucketName_entries op) of
        None \<Rightarrow> None
      | Some b \<Rightarrow>
     (case input_prompt username_question (username_entries op) of
        None \<Rightarrow> None
      | Some u \<Rightarrow>
     (case input_prompt appUrl_question (appUrl_entries op) of
        None \<Rightarrow> None
      | Some a \<Rightarrow>
     (case input_prompt (region_question e) (region_entries op) of
        None \<Rightarrow> None
      | Some r \<Rightarrow>
          Some \<lparr>bucketName = b,
                username = u,
                allowPublicRead = allowPublicRead_answer op,
                region = Some r,
                defaultPolicy = defaultPolicy_answer op,
                appUrl = a\<rparr>))))"

definition customPolicyNamePrompt :: "operator \<Rightarrow> jsstring option" where
  "customPolicyNamePrompt op = input_prompt policyName_question (policyName_entries op)"

definition policy_file :: jsstring where
  "policy_file = js ''custom-bucket-policy.json''"

definition policies_validate :: "platform \<Rightarrow> jsstring \<Rightarrow> validation" where
  "policies_validate P file = policies_validate_parsed (JSON_parse P file)"

text \<open>
  The two questions of \<open>customPolicyPrompt\<close> do their work inside \<open>validate\<close>, which runs when
  the operator submits an entry, and only then. A \<open>validate\<close> that throws is, for inquirer,
  one that rejects: the error is shown and the question is asked again.

  The question \<open>editor\<close>: each submission, whatever was typed, calls \<open>openInEditor\<close>; the
  question is answered once an editor has opened.
\<close>

fun editor_prompt :: "platform \<Rightarrow> jsstring list \<Rightarrow> unit io" where
  "editor_prompt P [] = waiting"
| "editor_prompt P (entry # entries) =
     (\<lambda>w. case openInEditor P policy_file w of
            (Returned opened, w') \<Rightarrow> (Returned (), w')
          | (Threw e, w') \<Rightarrow> editor_prompt P entries w'
          | (Waiting, w') \<Rightarrow> (Waiting, w'))"

text \<open>The question \<open>policies\<close>: at each submission the operator has left some text in the
  file, which is read and validated; the question is asked again until it passes.\<close>

fun policies_prompt :: "platform \<Rightarrow> jsstring list \<Rightarrow> unit io" where
  "policies_prompt P [] = waiting"
| "policies_prompt P (edit # edits) =
     (\<lambda>w. case readFileSync policy_file (w\<lparr>files := (files w)(policy_file \<mapsto> edit)\<rparr>) of
            (Returned file, w') \<Rightarrow>
              if policies_validate P file = Valid then (Returned (), w')
              else policies_prompt P edits w'
          | (Threw e, w') \<Rightarrow> policies_prompt P edits w'
          | (Waiting, w') \<Rightarrow> (Waiting, w'))"

definition customPolicyPrompt :: "platform \<Rightarrow> operator \<Rightarrow> unit io" where
  "customPolicyPrompt P op =
     and_then (editor_prompt P (editor_entries op))
       (\<lambda>_. policies_prompt P (policy_file_edits op))"

section \<open>The run of \<open>index.ts\<close>\<close>

definition newline :: "16 word" where
  "newline = 0x0A"

definition separator :: jsstring where
  "separator = [newline] @ js ''-----------------------------------'' @ [newline]"

definition policy_skeleton :: "jsstring \<Rightarrow> json" where
  "policy_skeleton bucket =
     JObject
       [(js ''Version'', JString (js ''2012-10-17'')),
        (js ''Statement'',
         JArray
           [JObject
              [(js ''Effect'', JString (js ''Allow'')),
               (js ''Action'', JArray []),
               (js ''Resource'',
                JArray [JString (js ''arn:aws:s3:::'' @ bucket @ js ''/*'')])]])]"

text \<open>Lines 25 to 48: the value of the variable \<open>policyName\<close> after the custom-policy
  branch, \<open>None\<close> for \<open>undefined\<close>.\<close>

definition policy_editor :: "platform \<Rightarrow> operator \<Rightarrow> UserBucketPrompt \<Rightarrow> jsstring option io" where
  "policy_editor P op answers =
     (if \<not> defaultPolicy answers then
        (case customPolicyNamePrompt op of
           None \<Rightarrow> waiting
         | Some name \<Rightarrow>
             and_then
               (writeFileSync policy_file
                  (JSON_stringify P (policy_skeleton (bucketName answers)) 4))
               (\<lambda>_. and_then (customPolicyPrompt P op) (\<lambda>_. return (Some name))))
      else return None)"

text \<open>Lines 129 to 131: the credentials file.\<close>

definition env_file_content :: "access_key \<Rightarrow> jsstring \<Rightarrow> jsstring option \<Rightarrow> jsstring" where
  "env_file_content key bucket reg =
     js ''AWS_ACCESS_KEY_ID='' @ tpl (AccessKeyId key) @ [newline]
     @ js ''AWS_SECRET_ACCESS_KEY='' @ tpl (SecretAccessKey key) @ [newline]
     @ js ''AWS_BUCKET_NAME='' @ bucket @ [newline]
     @ js ''AWS_REGION='' @ tpl reg"

definition write_credentials :: "access_key \<Rightarrow> jsstring \<Rightarrow> jsstring option \<Rightarrow> unit io" where
  "write_credentials key bucket reg =
     and_then (console_log (js ''Creating .env file...''))
       (\<lambda>_. writeFileSync (js ''.env.'' @ bucket) (env_file_content key bucket reg))"

text \<open>Lines 50 to 133, from the answers and the variable \<open>policyName\<close>.\<close>

definition provision :: "platform \<Rightarrow> UserBucketPrompt \<Rightarrow> jsstring option \<Rightarrow> unit io" where
  "provision P answers policyName =
     and_then (console_log (js ''Creating S3 bucket...'')) (\<lambda>_.
     and_then (createS3Bucket P (bucketName answers) (region answers)) (\<lambda>_.
     and_then (console_log (js ''Bucket '' @ bucketName answers @ js '' created!'')) (\<lambda>_.
     and_then (console_log separator) (\<lambda>_.
     and_then (console_log (js ''Attaching CORS policy to bucket...'')) (\<lambda>_.
     and_then
       (attachBucketCors P (bucketName answers)
          [\<lparr>AllowedHeaders = [js ''*''],
            AllowedMethods = [js ''GET'', js ''PUT'', js ''DELETE''],
            AllowedOrigins = [appUrl answers],
            ExposeHeaders = [],
            MaxAgeSeconds = 3000\<rparr>]
          (region answers)) (\<lambda>_.
     and_then (console_log (js ''CORS policy attached!'')) (\<lambda>_.
     and_then (console_log separator) (\<lambda>_.
     and_then
       (if allowPublicRead answers then
          and_then (console_log (js ''Creating public bucket policy...'')) (\<lambda>_.
          and_then (attachPublicBucketPolicy P (bucketName answers) (region answers)) (\<lambda>_.
          console_log (js ''Public bucket policy created!'')))
        else return ()) (\<lambda>_.
     and_then (console_log separator) (\<lambda>_.
     and_then (console_log (js ''Creating IAM user...'')) (\<lambda>_.
     and_then (createUser P (username answers) (region answers)) (\<lambda>_.
     and_then (console_log (js ''IAM user created!'')) (\<lambda>_.
     and_then
       (if defaultPolicy answers then
          and_then (console_log (js ''Attaching default policy to user...'')) (\<lambda>_.
          and_then (getDefaultUserPolicy P (bucketName answers) (region answers)) (\<lambda>arn.
          and_then (attachUserPolicy P (username answers) arn (region answers)) (\<lambda>_.
          console_log (js ''Default policy attached!''))))
        else
          and_then (console_log (js ''Creating custom policy...'')) (\<lambda>_.
          (case policyName of
             None \<Rightarrow> throw (Error (js ''Policy name not found''))
           | Some name \<Rightarrow>
               if name = [] then throw (Error (js ''Policy name not found''))
               else
                 and_then (readFileSync policy_file) (\<lambda>policyDocument.
                 (case JSON_parse P policyDocument of
                    None \<Rightarrow> throw SyntaxError
                  | Some parsed \<Rightarrow>
                      and_then
                        (createPolicy P name (JSON_stringify P parsed 0) (region answers)) (\<lambda>_.
                      attachUserPolicy P (username answers)
                        (js ''arn:aws:iam::'' @ tpl (AWS_ACCOUNT_ID (env P)) @ js '':policy/''
                           @ name)
                        (region answers))))))) (\<lambda>_.
     and_then (console_log separator) (\<lambda>_.
     and_then (console_log (js ''Creating access key...'')) (\<lambda>_.
     and_then (createAccessKey P (username answers) (region answers)) (\<lambda>key.
     and_then (console_log (js ''Access key created!'')) (\<lambda>_.
     and_then (console_log separator) (\<lambda>_.
     and_then (write_credentials key (bucketName answers) (region answers)) (\<lambda>_.
     console_log (js ''All done!'')))))))))))))))))))))"

definition main :: "platform \<Rightarrow> operator \<Rightarrow> unit io" where
  "main P op =
     (case userBucketPrompt (env P) op of
        None \<Rightarrow> waiting
      | Some answers \<Rightarrow>
          and_then (policy_editor P op answers) (\<lambda>policyName. provision P answers policyName))"

section \<open>The vocabulary of the specification\<close>

text \<open>The character sets as the specification words them: lowercase letters, digits,
  periods and hyphens for a bucket name; letters, digits and \<open>+=,.@_-\<close> for a user name or
  a policy name.\<close>

definition lowercase :: "16 word \<Rightarrow> bool" where
  "lowercase c = (of_char CHR ''a'' \<le> c \<and> c \<le> of_char CHR ''z'')"

definition uppercase :: "16 word \<Rightarrow> bool" where
  "uppercase c = (of_char CHR ''A'' \<le> c \<and> c \<le> of_char CHR ''Z'')"

definition digit :: "16 word \<Rightarrow> bool" where
  "digit c = (of_char CHR ''0'' \<le> c \<and> c \<le> of_char CHR ''9'')"

definition bucket_char :: "16 word \<Rightarrow> bool" where
  "bucket_char c = (lowercase c \<or> digit c \<or> c = of_char CHR ''.'' \<or> c = of_char CHR ''-'')"

definition name_char :: "16 word \<Rightarrow> bool" where
  "name_char c =
     (lowercase c \<or> uppercase c \<or> digit c \<or> c \<in> set (js ''+=,.@_-''))"

text \<open>An app URL as the specification words it: \<open>http://\<close> or \<open>https://\<close>, then at least
  one character, none of them a line terminator.\<close>

definition url_rest :: "jsstring \<Rightarrow> bool" where
  "url_rest rest = (rest \<noteq> [] \<and> list_all (\<lambda>c. \<not> line_terminator c) rest)"

definition http_url :: "jsstring \<Rightarrow> bool" where
  "http_url s =
     (take 7 s = js ''http://'' \<and> url_rest (drop 7 s)
      \<or> take 8 s = js ''https://'' \<and> url_rest (drop 8 s))"

text \<open>The shapes of a policy document.\<close>

definition is_string :: "json option \<Rightarrow> bool" where
  "is_string v = (case v of Some (JString s) \<Rightarrow> True | _ \<Rightarrow> False)"

definition nonempty_string_array :: "json option \<Rightarrow> bool" where
  "nonempty_string_array v =
     (case v of
        Some (JArray xs) \<Rightarrow> xs \<noteq> [] \<and> list_all (\<lambda>x. is_string (Some x)) xs
      | _ \<Rightarrow> False)"

definition statement_shape :: "json \<Rightarrow> bool" where
  "statement_shape st =
     (case st of
        JObject props \<Rightarrow>
          is_string (map_of props (js ''Effect''))
          \<and> nonempty_string_array (map_of props (js ''Action''))
          \<and> nonempty_string_array (map_of props (js ''Resource''))
      | _ \<Rightarrow> False)"

text \<open>The policy document of the specification: exactly the keys \<open>Version\<close> and
  \<open>Statement\<close>, the latter a non-empty array of statements.\<close>

definition spec_policy_document :: "json \<Rightarrow> bool" where
  "spec_policy_document v =
     (case v of
        JObject props \<Rightarrow>
          set (map fst props) = {js ''Version'', js ''Statement''}
          \<and> map_of props (js ''Version'') = Some (JString (js ''2012-10-17''))
          \<and> (case map_of props (js ''Statement'') of
                Some (JArray sts) \<Rightarrow> sts \<noteq> [] \<and> list_all statement_shape sts
              | _ \<Rightarrow> False)
      | _ \<Rightarrow> False)"

text \<open>The policy document of the schema: the keys \<open>Version\<close> and \<open>Statement\<close> among
  possibly others, the latter an array of statements, possibly empty.\<close>

definition schema_policy_document :: "json \<Rightarrow> bool" where
  "schema_policy_document v =
     (case v of
        JObject props \<Rightarrow>
          map_of props (js ''Version'') = Some (JString (js ''2012-10-17''))
          \<and> (case map_of props (js ''Statement'') of
                Some (JArray sts) \<Rightarrow> list_all statement_shape sts
              | _ \<Rightarrow> False)
      | _ \<Rightarrow> False)"

text \<open>The lines of a text, split at line feeds.\<close>

fun split_lines :: "jsstring \<Rightarrow> jsstring list" where
  "split_lines [] = [[]]"
| "split_lines (c # cs) =
     (if c = newline then [] # split_lines cs
      else (case split_lines cs of [] \<Rightarrow> [[c]] | l # ls \<Rightarrow> (c # l) # ls))"

text \<open>The requests that upload an object, and those that register or attach a managed
  policy.\<close>

fun is_putObject :: "event \<Rightarrow> bool" where
  "is_putObject (Aws_call config (S3_putObject bucket key)) = True"
| "is_putObject e = False"

fun is_policy_call :: "event \<Rightarrow> bool" where
  "is_policy_call (Aws_call config (IAM_createPolicy name document)) = True"
| "is_policy_call (Aws_call config (IAM_attachUserPolicy user arn)) = True"
| "is_policy_call e = False"

text \<open>A step is silent for a kind of event when it adds no event of that kind to the
  trace, whatever the world it starts in.\<close>

definition silent :: "(event \<Rightarrow> bool) \<Rightarrow> 'a io \<Rightarrow> bool" where
  "silent p m = (\<forall>w. filter p (trace (snd (m w))) = filter p (trace w))"

text \<open>A step never throws a given error, whatever the world it starts in.\<close>

definition never_throws :: "js_error \<Rightarrow> 'a io \<Rightarrow> bool" where
  "never_throws e m = (\<forall>w. fst (m w) \<noteq> Threw e)"

text \<open>How a run that was to stop for want of a policy name may end: with that error, or
  earlier with a failure of the service.\<close>

definition stopped_before_policy :: "unit outcome \<Rightarrow> bool" where
  "stopped_before_policy r =
     (case r of
        Threw (Error message) \<Rightarrow> message = js ''Policy name not found''
      | Threw (Aws_error code) \<Rightarrow> True
      | _ \<Rightarrow> False)"

section \<open>An example run\<close>

text \<open>
  A world for the examples below: the environment of the end-to-end scenario of the
  specification, a service that accepts every request and hands out one access key, and a
  runtime of which only what the examples read is fixed (the one text its \<open>JSON.parse\<close>
  knows is that of a policy with one statement; its \<open>openInEditor\<close> finds an editor).
\<close>

definition example_env :: bun_env where
  "example_env =
     \<lparr>AWS_ACCESS_KEY_ID = Some (js ''AKIAADMIN''),
      AWS_SECRET_ACCESS_KEY = Some (js ''admin-secret''),
      AWS_DEFAULT_REGION = Some (js ''us-east-1''),
      AWS_ACCOUNT_ID = Some (js ''123456789012'')\<rparr>"

definition example_policy :: json where
  "example_policy =
     JObject
       [(js ''Version'', JString (js ''2012-10-17'')),
        (js ''Statement'',
         JArray
           [JObject
              [(js ''Effect'', JString (js ''Allow'')),
               (js ''Action'', JArray [JString (js ''s3:PutObject'')]),
               (js ''Resource'', JArray [JString (js ''arn:aws:s3:::my-app-assets/*'')])]])]"

definition example_aws :: "client_config \<Rightarrow> aws_request \<Rightarrow> jsstring + aws_output" where
  "example_aws config request =
     (case request of
        IAM_createAccessKey user \<Rightarrow>
          Inr \<lparr>AccessKey =
                 Some \<lparr>AccessKeyId = Some (js ''AKIADEPLOYER''),
                       SecretAccessKey = Some (js ''deployer-secret'')\<rparr>\<rparr>
      | _ \<Rightarrow> Inr \<lparr>AccessKey = None\<rparr>)"

definition example_platform :: platform where
  "example_platform =
     \<lparr>env = example_env,
      aws = example_aws,
      JSON_parse = (\<lambda>text. if text = js ''edited policy'' then Some example_policy else None),
      JSON_stringify = (\<lambda>v n. if n = 0 then js ''compact text'' else js ''indented text''),
      Bun_openInEditor = (\<lambda>path. None)\<rparr>"

text \<open>The same world on a machine without an editor.\<close>

definition example_platform_no_editor :: platform where
  "example_platform_no_editor =
     example_platform
       \<lparr>Bun_openInEditor := (\<lambda>path. Some (js ''Failed to auto-detect editor''))\<rparr>"

definition example_operator :: operator where
  "example_operator =
     \<lparr>bucketName_entries = [js ''My Assets'', js ''my-app-assets''],
      username_entries = [js ''deployer''],
      appUrl_entries = [js ''https://app.example.com''],
      allowPublicRead_answer = True,
      region_entries = [js ''us-east-1''],
      defaultPolicy_answer = False,
      policyName_entries = [js ''up'', js ''uploads-policy''],
      editor_entries = [[]],
      policy_file_edits = [js ''{'', js ''edited policy'']\<rparr>"

definition example_answers :: UserBucketPrompt where
  "example_answers =
     \<lparr>bucketName = js ''my-app-assets'',
      username = js ''deployer'',
      allowPublicRead = True,
      region = Some (js ''us-east-1''),
      defaultPolicy = False,
      appUrl = js ''https://app.example.com''\<rparr>"

definition empty_world :: world where
  "empty_world = \<lparr>files = Map.empty, trace = []\<rparr>"

section \<open>The regular expressions, character by character\<close>

lemma search_Bol_False: "search (Bol # r) False s = False"
  by (induction s) auto

lemma test_Bol: "regex_test (Bol # r) s = match_here r True s"
  by (cases s) (auto simp: regex_test_def search_Bol_False)

lemma match_Plus_Eol:
  "match_here [Plus a, Eol] b s = (s \<noteq> [] \<and> list_all (atom_matches a) s)"
proof (induction s arbitrary: b)
  case Nil show ?case by simp
next
  case (Cons c t)
  have "match_here [Eol] False t = (t = [])" by simp
  then show ?case using Cons.IH [of False] by auto
qed

lemma match_chr:
  "match_here (chr c # r) b s = (\<exists>t. s = of_char c # t \<and> match_here r False t)"
  by (cases s) (auto simp: chr_def)

lemma match_Opt:
  "match_here (Opt (Chr c) # r) b s =
     ((\<exists>t. s = c # t \<and> match_here r False t) \<or> match_here r b s)"
  by (cases s) auto

lemma bucket_class:
  "atom_matches (Class [cls_range CHR ''a'' CHR ''z'', cls_range CHR ''0'' CHR ''9'',
                   cls_char CHR ''.'', cls_char CHR ''-'']) = bucket_char"
  by (rule ext) (auto simp: cls_range_def cls_char_def bucket_char_def lowercase_def digit_def)

lemma name_class:
  "atom_matches (Class [cls_range CHR ''a'' CHR ''z'', cls_range CHR ''A'' CHR ''Z'',
                   cls_range CHR ''0'' CHR ''9'', cls_char CHR ''+'', cls_char CHR ''='',
                   cls_char CHR '','', cls_char CHR ''.'', cls_char CHR ''@'', cls_char CHR ''_'',
                   cls_char CHR ''-'']) = name_char"
  by (rule ext) (auto simp: cls_range_def cls_char_def name_char_def lowercase_def uppercase_def digit_def js_def)

lemma bucketName_re_iff: "regex_test bucketName_re s = (s \<noteq> [] \<and> list_all bucket_char s)"
  by (simp add: bucketName_re_def test_Bol match_Plus_Eol bucket_class)

lemma username_re_iff: "regex_test username_re s = (s \<noteq> [] \<and> list_all name_char s)"
  by (simp add: username_re_def test_Bol match_Plus_Eol name_class)

lemma policyName_re_iff: "regex_test policyName_re s = (s \<noteq> [] \<and> list_all name_char s)"
  by (simp add: policyName_re_def test_Bol match_Plus_Eol name_class)

lemma dot_class: "atom_matches Dot = (\<lambda>c. \<not> line_terminator c)"
  by (rule ext) simp

lemma appUrl_re_iff: "regex_test appUrl_re s = http_url s"
proof -
  have "regex_test appUrl_re s = (\<exists>rest. (s = js ''http://'' @ rest \<or> s = js ''https://'' @ rest) \<and> url_rest rest)"
    by (auto simp add: appUrl_re_def test_Bol match_chr match_Opt match_Plus_Eol js_def url_rest_def dot_class)
  also have "\<dots> = http_url s"
  proof -
    have a: "\<And>p rest. s = p @ rest \<longleftrightarrow> take (length p) s = p \<and> rest = drop (length p) s"
      by (metis append_eq_conv_conj)
    have l7: "length (js ''http://'') = 7" and l8: "length (js ''https://'') = 8"
      by (simp_all add: js_def)
    show ?thesis unfolding http_url_def
      using a [of "js ''http://''"] a [of "js ''https://''"] l7 l8 by auto
  qed
  finally show ?thesis .
qed

section \<open>The validators\<close>

text \<open>
  C4. For every string, the bucket-name validator accepts exactly when the length is
  between 3 and 63 inclusive and the string matches \<open>/^[a-z0-9.-]+$/\<close>, that is, when it is
  not empty and made of lowercase letters, digits, periods and hyphens only. \<open>ab\<close> is
  rejected, \<open>My-Bucket\<close> is rejected, \<open>my-bucket.1\<close> is accepted.
\<close>

theorem bucketName_validate_iff:
  "(bucketName_validate (Some s) = Valid
      \<longleftrightarrow> 3 \<le> length s \<and> length s \<le> 63 \<and> regex_test bucketName_re s)
   \<and> (regex_test bucketName_re s \<longleftrightarrow> s \<noteq> [] \<and> list_all bucket_char s)
   \<and> bucketName_validate (Some (js ''ab'')) \<noteq> Valid
   \<and> bucketName_validate (Some (js ''My-Bucket'')) \<noteq> Valid
   \<and> bucketName_validate (Some (js ''my-bucket.1'')) = Valid"
proof -
  have 1: "bucketName_validate (Some s) = Valid
      \<longleftrightarrow> 3 \<le> length s \<and> length s \<le> 63 \<and> regex_test bucketName_re s"
    by (auto simp: bucketName_validate_def)
  have 2: "bucketName_validate (Some (js ''ab'')) \<noteq> Valid"
    by (simp add: bucketName_validate_def js_def)
  have 3: "bucketName_validate (Some (js ''My-Bucket'')) \<noteq> Valid"
    by (simp add: bucketName_validate_def bucketName_re_iff js_def bucket_char_def
        lowercase_def digit_def)
  have 4: "bucketName_validate (Some (js ''my-bucket.1'')) = Valid"
    by (simp add: bucketName_validate_def bucketName_re_iff js_def bucket_char_def
        lowercase_def digit_def)
  show ?thesis using 1 2 3 4 bucketName_re_iff by blast
qed

theorem bucketName_validate_iff_witness:
  "bucketName_validate (Some (js ''assets-2024.eu'')) = Valid
   \<and> list_all bucket_char (js ''assets-2024.eu'')
   \<and> length (js ''assets-2024.eu'') = 14"
  using bucketName_validate_iff [of "js ''assets-2024.eu''"]
  by (simp add: js_def bucket_char_def lowercase_def digit_def)

text \<open>
  C5. For every string, the username validator and the policy-name validator each accept
  exactly when the length is between 3 and 63 inclusive and the string matches
  \<open>/^[a-zA-Z0-9+=,.@_-]+$/\<close>, that is, when it is not empty and made of letters, digits and
  the characters \<open>+=,.@_-\<close> only. \<open>jo\<close> is rejected, \<open>jo#doe\<close> is rejected, \<open>jo.doe_1\<close> is
  accepted. The two validators accept the same inputs.
\<close>

theorem username_policyName_validate_iff:
  "(username_validate (Some s) = Valid
      \<longleftrightarrow> 3 \<le> length s \<and> length s \<le> 63 \<and> regex_test username_re s)
   \<and> (policyName_validate (Some s) = Valid
      \<longleftrightarrow> 3 \<le> length s \<and> length s \<le> 63 \<and> regex_test policyName_re s)
   \<and> (regex_test username_re s \<longleftrightarrow> s \<noteq> [] \<and> list_all name_char s)
   \<and> (regex_test policyName_re s \<longleftrightarrow> s \<noteq> [] \<and> list_all name_char s)
   \<and> (username_validate input = Valid \<longleftrightarrow> policyName_validate input = Valid)
   \<and> username_validate (Some (js ''jo'')) \<noteq> Valid
   \<and> policyName_validate (Some (js ''jo'')) \<noteq> Valid
   \<and> username_validate (Some (js ''jo#doe'')) \<noteq> Valid
   \<and> policyName_validate (Some (js ''jo#doe'')) \<noteq> Valid
   \<and> username_validate (Some (js ''jo.doe_1'')) = Valid
   \<and> policyName_validate (Some (js ''jo.doe_1'')) = Valid"
proof -
  have u: "username_validate (Some t) = Valid
      \<longleftrightarrow> 3 \<le> length t \<and> length t \<le> 63 \<and> regex_test username_re t" for t
    by (auto simp: username_validate_def)
  have p: "policyName_validate (Some t) = Valid
      \<longleftrightarrow> 3 \<le> length t \<and> length t \<le> 63 \<and> regex_test policyName_re t" for t
    by (auto simp: policyName_validate_def)
  have same: "username_validate input = Valid \<longleftrightarrow> policyName_validate input = Valid"
  proof (cases input)
    case None
    then show ?thesis by (simp add: username_validate_def policyName_validate_def)
  next
    case (Some t)
    then show ?thesis by (simp add: u p username_re_iff policyName_re_iff)
  qed
  have short: "username_validate (Some (js ''jo'')) \<noteq> Valid"
    "policyName_validate (Some (js ''jo'')) \<noteq> Valid"
    by (simp_all add: u p js_def)
  have hash: "username_validate (Some (js ''jo#doe'')) \<noteq> Valid"
    "policyName_validate (Some (js ''jo#doe'')) \<noteq> Valid"
    by (simp_all add: u p username_re_iff policyName_re_iff js_def name_char_def
        lowercase_def uppercase_def digit_def)
  have good: "username_validate (Some (js ''jo.doe_1'')) = Valid"
    "policyName_validate (Some (js ''jo.doe_1'')) = Valid"
    by (simp_all add: u p username_re_iff policyName_re_iff js_def name_char_def
        lowercase_def uppercase_def digit_def)
  show ?thesis
    using u [of s] p [of s] same short hash good username_re_iff policyName_re_iff
    by blast
qed

theorem username_policyName_validate_iff_witness:
  "username_validate (Some (js ''Deploy.Bot@ci'')) = Valid
   \<and> policyName_validate (Some (js ''Deploy.Bot@ci'')) = Valid
   \<and> list_all name_char (js ''Deploy.Bot@ci'')
   \<and> length (js ''Deploy.Bot@ci'') = 13"
  using username_policyName_validate_iff [of "js ''Deploy.Bot@ci''" "Some (js ''Deploy.Bot@ci'')"]
  by (simp add: js_def name_char_def lowercase_def uppercase_def digit_def)

text \<open>
  C6. For every string, the app-URL validator accepts exactly when the string matches
  \<open>/^https?:\/\/.+$/\<close>, that is, when it is \<open>http://\<close> or \<open>https://\<close> followed by at least one
  character and no line terminator. A blank entry at the question resolves to the default
  \<open>http://localhost:3000\<close>.
\<close>

theorem appUrl_validate_iff:
  "(appUrl_validate (Some s) = Valid \<longleftrightarrow> regex_test appUrl_re s)
   \<and> (regex_test appUrl_re s \<longleftrightarrow> http_url s)
   \<and> input_prompt appUrl_question ([] # entries) = Some (js ''http://localhost:3000'')"
proof -
  have 1: "appUrl_validate (Some s) = Valid \<longleftrightarrow> regex_test appUrl_re s"
    by (cases s) (auto simp: appUrl_validate_def regex_test_def appUrl_re_def chr_def)
  have "http_url appUrl_default"
    by (simp add: http_url_def appUrl_default_def url_rest_def js_def line_terminator_def)
  then have "appUrl_validate (Some appUrl_default) = Valid"
    by (simp add: appUrl_validate_def appUrl_re_iff appUrl_default_def js_def)
  then have 3: "input_prompt appUrl_question ([] # entries) = Some (js ''http://localhost:3000'')"
    by (simp add: appUrl_question_def appUrl_default_def)
  show ?thesis using 1 3 appUrl_re_iff by blast
qed

theorem appUrl_validate_iff_witness:
  "appUrl_validate (Some (js ''https://app.example.com'')) = Valid
   \<and> http_url (js ''https://app.example.com'')
   \<and> input_prompt appUrl_question [[], js ''ftp://x''] = Some (js ''http://localhost:3000'')"
  using appUrl_validate_iff [of "js ''https://app.example.com''" "[js ''ftp://x'']"]
  by (simp add: http_url_def url_rest_def js_def line_terminator_def)

section \<open>The policy schema\<close>

lemma zod_string_iff: "zod_issues ZString v = [] \<longleftrightarrow> is_string v"
  by (simp add: is_string_def split: option.splits json.splits)

lemma zod_string_array_Suc:
  "zod_issues (ZArray ZString (Some (Suc 0, message))) v = [] \<longleftrightarrow> nonempty_string_array v"
proof (cases v)
  case None
  then show ?thesis by (simp add: nonempty_string_array_def)
next
  case (Some x)
  then show ?thesis
    by (cases x)
      (auto simp: nonempty_string_array_def list_all_iff zod_string_iff
         simp del: zod_issues.simps(1))
qed

lemma zod_statement_iff:
  "zod_issues (ZObject
              [(js ''Effect'', ZString),
               (js ''Action'',
                ZArray ZString (Some (1, js ''Policy must have at least one action''))),
               (js ''Resource'',
                ZArray ZString (Some (1, js ''Policy must have at least one resource'')))]) (Some st) = [] \<longleftrightarrow> statement_shape st"
  by (cases st)
    (simp_all add: statement_shape_def zod_string_iff zod_string_array_Suc
       del: zod_issues.simps(1,3))

lemma zod_literal_iff:
  "zod_issues (ZLiteral l) v = [] \<longleftrightarrow> v = Some (JString l)"
  by (auto split: option.splits json.splits)

lemma zod_statements_iff:
  "zod_issues (ZArray (ZObject
              [(js ''Effect'', ZString),
               (js ''Action'',
                ZArray ZString (Some (1, js ''Policy must have at least one action''))),
               (js ''Resource'',
                ZArray ZString (Some (1, js ''Policy must have at least one resource'')))]) None) x = []
     \<longleftrightarrow> (case x of Some (JArray sts) \<Rightarrow> list_all statement_shape sts | _ \<Rightarrow> False)"
proof (cases x)
  case None
  then show ?thesis by simp
next
  case (Some y)
  then show ?thesis
    by (cases y)
      (simp_all add: list_all_iff zod_statement_iff del: zod_issues.simps(4) One_nat_def)
qed

lemma zod_policy_iff: "zod_issues policySchema (Some v) = [] \<longleftrightarrow> schema_policy_document v"
proof (cases v)
  case (JObject props)
  show ?thesis unfolding policySchema_def schema_policy_document_def JObject
    apply (subst zod_issues.simps(4))
    apply (simp add: zod_literal_iff zod_statements_iff del: zod_issues.simps One_nat_def)
    done
qed (simp_all add: policySchema_def schema_policy_document_def)

text \<open>
  What the schema, as it is declared, lets through: an object whose \<open>Version\<close> is the string
  \<open>2012-10-17\<close> and whose \<open>Statement\<close> is an array of objects with a string \<open>Effect\<close>, a
  non-empty array of strings \<open>Action\<close> and a non-empty array of strings \<open>Resource\<close>. A
  document with one well-formed statement is accepted, and one whose statement has an empty
  \<open>Action\<close> is rejected.
\<close>

lemma policies_validate_parsed_iff:
  "(policies_validate_parsed (Some v) = Valid \<longleftrightarrow> schema_policy_document v)
   \<and> policies_validate_parsed
        (Some (JObject
           [(js ''Version'', JString (js ''2012-10-17'')),
            (js ''Statement'',
             JArray
               [JObject
                  [(js ''Effect'', JString (js ''Allow'')),
                   (js ''Action'', JArray [JString (js ''s3:GetObject'')]),
                   (js ''Resource'', JArray [JString (js ''arn:aws:s3:::my-bucket/*'')])]])]))
       = Valid
   \<and> policies_validate_parsed
        (Some (JObject
           [(js ''Version'', JString (js ''2012-10-17'')),
            (js ''Statement'',
             JArray
               [JObject
                  [(js ''Effect'', JString (js ''Allow'')),
                   (js ''Action'', JArray []),
                   (js ''Resource'', JArray [JString (js ''arn:aws:s3:::my-bucket/*'')])]])]))
       \<noteq> Valid"
proof -
  have iff: "policies_validate_parsed (Some x) = Valid \<longleftrightarrow> schema_policy_document x" for x
    using zod_policy_iff [of x]
    by (auto simp: policies_validate_parsed_def split: list.splits)
  have good: "schema_policy_document
        (JObject
           [(js ''Version'', JString (js ''2012-10-17'')),
            (js ''Statement'',
             JArray
               [JObject
                  [(js ''Effect'', JString (js ''Allow'')),
                   (js ''Action'', JArray [JString (js ''s3:GetObject'')]),
                   (js ''Resource'', JArray [JString (js ''arn:aws:s3:::my-bucket/*'')])]])])"
    by (simp add: schema_policy_document_def statement_shape_def is_string_def
        nonempty_string_array_def js_def)
  have bad: "\<not> schema_policy_document
        (JObject
           [(js ''Version'', JString (js ''2012-10-17'')),
            (js ''Statement'',
             JArray
               [JObject
                  [(js ''Effect'', JString (js ''Allow'')),
                   (js ''Action'', JArray []),
                   (js ''Resource'', JArray [JString (js ''arn:aws:s3:::my-bucket/*'')])]])])"
    by (simp add: schema_policy_document_def statement_shape_def is_string_def
        nonempty_string_array_def js_def)
  show ?thesis using iff good bad by blast
qed

lemma policies_validate_parsed_iff_example:
  "policies_validate_parsed
     (Some (JObject
        [(js ''Id'', JString (js ''uploads'')),
         (js ''Version'', JString (js ''2012-10-17'')),
         (js ''Statement'',
          JArray
            [JObject
               [(js ''Sid'', JString (js ''Write'')),
                (js ''Effect'', JString (js ''Allow'')),
                (js ''Action'', JArray [JString (js ''s3:PutObject'')]),
                (js ''Resource'', JArray [JString (js ''arn:aws:s3:::my-bucket/*'')])]])]))
   = Valid"
  using policies_validate_parsed_iff
    [of "JObject
        [(js ''Id'', JString (js ''uploads'')),
         (js ''Version'', JString (js ''2012-10-17'')),
         (js ''Statement'',
          JArray
            [JObject
               [(js ''Sid'', JString (js ''Write'')),
                (js ''Effect'', JString (js ''Allow'')),
                (js ''Action'', JArray [JString (js ''s3:PutObject'')]),
                (js ''Resource'', JArray [JString (js ''arn:aws:s3:::my-bucket/*'')])]])]"]
  by (simp add: schema_policy_document_def statement_shape_def is_string_def
      nonempty_string_array_def js_def)

text \<open>
  C1. The policy document of the specification has a non-empty \<open>Statement\<close>, and the
  validation is to reject \<open>{"Version":"2012-10-17","Statement":[]}\<close>. The code accepts that
  document: the \<open>Statement\<close> array of the schema carries no minimum length, whereas its
  siblings \<open>Action\<close> and \<open>Resource\<close> carry \<open>.min(1)\<close>, so that an empty \<open>Action\<close> is
  rejected with \<open>Policy must have at least one action\<close> while a policy with no statement, which
  has no action either, passes.
\<close>

theorem policies_validate_accepts_empty_Statement:
  "policies_validate_parsed
     (Some (JObject
        [(js ''Version'', JString (js ''2012-10-17'')), (js ''Statement'', JArray [])]))
   = Valid
   \<and> \<not> spec_policy_document
        (JObject [(js ''Version'', JString (js ''2012-10-17'')), (js ''Statement'', JArray [])])
   \<and> policies_validate_parsed
        (Some (JObject
           [(js ''Version'', JString (js ''2012-10-17'')),
            (js ''Statement'',
             JArray
               [JObject
                  [(js ''Effect'', JString (js ''Allow'')),
                   (js ''Action'', JArray []),
                   (js ''Resource'', JArray [JString (js ''arn:aws:s3:::my-bucket/*'')])]])]))
       = Invalid_zod [Too_small (js ''Policy must have at least one action'')]"
  by (simp add: policies_validate_parsed_def policySchema_def spec_policy_document_def js_def)

section \<open>Steps and what they leave in the trace\<close>

lemma and_then_return [simp]: "and_then (return x) f = f x"
  by (rule ext) (simp add: and_then_def return_def)

lemma return_apply [simp]: "return x w = (Returned x, w)"
  by (simp add: return_def)

lemma throw_apply [simp]: "throw e w = (Threw e, w)"
  by (simp add: throw_def)

lemma waiting_apply [simp]: "waiting w = (Waiting, w)"
  by (simp add: waiting_def)

lemma and_then_assoc: "and_then (and_then m f) g = and_then m (\<lambda>x. and_then (f x) g)"
  by (rule ext) (simp add: and_then_def split: prod.splits outcome.splits)

lemma aws_send_unit:
  "and_then (aws_send P config request) (\<lambda>_. return ()) w =
     (case aws P config request of
        Inl code \<Rightarrow> (Threw (Aws_error code), w\<lparr>trace := trace w @ [Aws_call config request]\<rparr>)
      | Inr output \<Rightarrow> (Returned (), w\<lparr>trace := trace w @ [Aws_call config request]\<rparr>))"
  by (simp add: and_then_def aws_send_def Let_def return_def split: sum.splits)

lemma and_then_emit: "and_then (emit e) f w = f () (w\<lparr>trace := trace w @ [e]\<rparr>)"
  by (simp add: and_then_def emit_def)

lemma and_then_aws_send:
  "and_then (aws_send P config request) f w =
     (case aws P config request of
        Inl code \<Rightarrow> (Threw (Aws_error code), w\<lparr>trace := trace w @ [Aws_call config request]\<rparr>)
      | Inr output \<Rightarrow> f output (w\<lparr>trace := trace w @ [Aws_call config request]\<rparr>))"
  by (simp add: and_then_def aws_send_def Let_def split: sum.splits)

lemma silentI: "(\<And>w. filter p (trace (snd (m w))) = filter p (trace w)) \<Longrightarrow> silent p m"
  by (simp add: silent_def)

lemma silentD: "silent p m \<Longrightarrow> filter p (trace (snd (m w))) = filter p (trace w)"
  by (simp add: silent_def)

lemma silent_return: "silent p (return x)"
  by (simp add: silent_def)

lemma silent_throw: "silent p (throw e)"
  by (simp add: silent_def)

lemma silent_waiting: "silent p waiting"
  by (simp add: silent_def)

lemma silent_and_then:
  assumes "silent p m" and "\<And>x. silent p (f x)"
  shows "silent p (and_then m f)"
proof (rule silentI)
  fix w
  obtain r w' where mw: "m w = (r, w')" by (cases "m w")
  have m: "filter p (trace w') = filter p (trace w)"
    using silentD [OF assms(1), of w] mw by simp
  show "filter p (trace (snd (and_then m f w))) = filter p (trace w)"
  proof (cases r)
    case (Returned x)
    then show ?thesis
      using silentD [OF assms(2), of x w'] m mw by (simp add: and_then_def)
  qed (use m mw in \<open>simp_all add: and_then_def\<close>)
qed

lemma silent_console_log: "\<not> p (Console_log line) \<Longrightarrow> silent p (console_log line)"
  by (simp add: silent_def console_log_def emit_def)

lemma openInEditor_cases:
  "openInEditor P path w =
     (case Bun_openInEditor P path of
        None \<Rightarrow> (Returned (), w\<lparr>trace := trace w @ [Open_in_editor path]\<rparr>)
      | Some message \<Rightarrow> (Threw (Error message), w))"
  by (simp add: openInEditor_def emit_def throw_def split: option.splits)

lemma silent_editor_prompt:
  "\<not> p (Open_in_editor policy_file) \<Longrightarrow> silent p (editor_prompt P entries)"
proof (induction entries)
  case Nil
  show ?case by (simp add: silent_def)
next
  case (Cons entry entries)
  show ?case
  proof (rule silentI)
    fix w
    show "filter p (trace (snd (editor_prompt P (entry # entries) w))) = filter p (trace w)"
      using silentD [OF Cons.IH [OF Cons.prems], of w] Cons.prems
      by (simp add: openInEditor_cases split: option.splits)
  qed
qed

lemma silent_writeFileSync:
  "\<not> p (Write_file path data) \<Longrightarrow> silent p (writeFileSync path data)"
  by (simp add: silent_def writeFileSync_def)

lemma silent_readFileSync: "silent p (readFileSync path)"
  by (simp add: silent_def readFileSync_def split: option.splits)

lemma silent_aws_send:
  "\<not> p (Aws_call config request) \<Longrightarrow> silent p (aws_send P config request)"
  by (simp add: silent_def aws_send_def Let_def split: sum.splits)

lemma silent_policies_prompt:
  "silent p (policies_prompt P edits)"
proof (induction edits)
  case Nil
  show ?case by (simp add: silent_def)
next
  case (Cons edit edits)
  show ?case
  proof (rule silentI)
    fix w
    show "filter p (trace (snd (policies_prompt P (edit # edits) w))) = filter p (trace w)"
      using silentD [OF Cons.IH, of "w\<lparr>files := (files w)(policy_file \<mapsto> edit)\<rparr>"]
      by (simp add: readFileSync_def)
  qed
qed

lemmas silent_intros =
  silent_and_then silent_return silent_throw silent_waiting silent_console_log
  silent_editor_prompt silent_writeFileSync silent_readFileSync silent_aws_send
  silent_policies_prompt

lemmas op_defs =
  createUser_def createPolicy_def createAccessKey_def attachUserPolicy_def
  createS3Bucket_def attachBucketCors_def attachPublicBucketPolicy_def
  getDefaultUserPolicy_def write_credentials_def customPolicyPrompt_def

lemma silent_provision_putObject: "silent is_putObject (provision P answers pn)"
  unfolding provision_def op_defs Let_def
  by (auto intro!: silent_intros split: option.splits)

lemma silent_policy_editor_putObject: "silent is_putObject (policy_editor P op answers)"
  unfolding policy_editor_def op_defs
  by (auto intro!: silent_intros split: option.splits)

lemma silent_main_putObject: "silent is_putObject (main P op)"
  unfolding main_def
  by (auto intro!: silent_intros silent_provision_putObject silent_policy_editor_putObject
      split: option.splits)

lemma silent_provision_policy_call:
  "\<not> defaultPolicy answers \<Longrightarrow> falsy pn \<Longrightarrow> silent is_policy_call (provision P answers pn)"
  unfolding provision_def op_defs Let_def
  by (auto intro!: silent_intros simp: falsy_def split: option.splits)

lemma and_then_throw: "and_then (throw e) f = throw e"
  by (rule ext) (simp add: and_then_def throw_def)

lemma provision_stops:
  assumes "\<not> defaultPolicy answers" and "falsy pn"
  shows "stopped_before_policy (fst (provision P answers pn w))"
  using assms
  by (auto simp: provision_def op_defs Let_def and_then_assoc and_then_aws_send and_then_emit
      console_log_def stopped_before_policy_def falsy_def and_then_throw
      split: sum.splits option.splits)

lemma never_throwsI: "(\<And>w. fst (m w) \<noteq> Threw e) \<Longrightarrow> never_throws e m"
  by (simp add: never_throws_def)

lemma never_throwsD: "never_throws e m \<Longrightarrow> fst (m w) \<noteq> Threw e"
  by (simp add: never_throws_def)

lemma never_throws_and_then_Returned:
  assumes "never_throws e m"
    and "\<And>w x w'. m w = (Returned x, w') \<Longrightarrow> fst (f x w') \<noteq> Threw e"
  shows "never_throws e (and_then m f)"
proof (rule never_throwsI)
  fix w
  obtain r w' where mw: "m w = (r, w')" by (cases "m w")
  show "fst (and_then m f w) \<noteq> Threw e"
  proof (cases r)
    case (Returned x)
    then show ?thesis using assms(2) [of w x w'] mw by (simp add: and_then_def)
  next
    case (Threw e')
    then show ?thesis using never_throwsD [OF assms(1), of w] mw by (simp add: and_then_def)
  next
    case Waiting
    then show ?thesis using mw by (simp add: and_then_def)
  qed
qed

lemma never_throws_and_then:
  assumes "never_throws e m" and "\<And>x. never_throws e (f x)"
  shows "never_throws e (and_then m f)"
  using assms(1) never_throwsD [OF assms(2)] by (rule never_throws_and_then_Returned)

lemma never_throws_return: "never_throws e (return x)"
  by (simp add: never_throws_def)

lemma never_throws_waiting: "never_throws e waiting"
  by (simp add: never_throws_def)

lemma never_throws_throw: "e \<noteq> e' \<Longrightarrow> never_throws e (throw e')"
  by (auto simp: never_throws_def)

lemma never_throws_console_log: "never_throws e (console_log line)"
  by (simp add: never_throws_def console_log_def emit_def)

lemma never_throws_editor_prompt: "never_throws e (editor_prompt P entries)"
proof (induction entries)
  case Nil
  show ?case by (simp add: never_throws_def)
next
  case (Cons entry entries)
  show ?case
  proof (rule never_throwsI)
    fix w
    show "fst (editor_prompt P (entry # entries) w) \<noteq> Threw e"
      using never_throwsD [OF Cons.IH, of w]
      by (simp add: openInEditor_cases split: option.splits)
  qed
qed

lemma never_throws_writeFileSync: "never_throws e (writeFileSync path data)"
  by (simp add: never_throws_def writeFileSync_def)

lemma never_throws_readFileSync:
  "(\<And>p. e \<noteq> ENOENT p) \<Longrightarrow> never_throws e (readFileSync path)"
  by (auto simp: never_throws_def readFileSync_def split: option.splits)

lemma never_throws_aws_send:
  "(\<And>code. aws P config request = Inl code \<Longrightarrow> e \<noteq> Aws_error code)
     \<Longrightarrow> never_throws e (aws_send P config request)"
  by (auto simp: never_throws_def aws_send_def Let_def split: sum.splits)

lemma never_throws_policies_prompt: "never_throws e (policies_prompt P edits)"
proof (induction edits)
  case Nil
  show ?case by (simp add: never_throws_def)
next
  case (Cons edit edits)
  show ?case
  proof (rule never_throwsI)
    fix w
    show "fst (policies_prompt P (edit # edits) w) \<noteq> Threw e"
      using never_throwsD [OF Cons.IH, of "w\<lparr>files := (files w)(policy_file \<mapsto> edit)\<rparr>"]
      by (simp add: readFileSync_def)
  qed
qed

lemmas never_throws_intros =
  never_throws_and_then never_throws_return never_throws_waiting never_throws_throw
  never_throws_console_log never_throws_editor_prompt never_throws_writeFileSync
  never_throws_readFileSync never_throws_aws_send never_throws_policies_prompt

lemma provision_never_throws_Error:
  "defaultPolicy answers \<or> \<not> falsy pn \<Longrightarrow> never_throws (Error message) (provision P answers pn)"
  unfolding provision_def op_defs Let_def
  by (auto intro!: never_throws_intros simp: falsy_def split: option.splits)

lemma policy_editor_never_throws_Error:
  "never_throws (Error message) (policy_editor P op answers)"
  unfolding policy_editor_def op_defs
  by (auto intro!: never_throws_intros split: option.splits)

lemma input_prompt_Valid:
  "input_prompt q entries = Some answer \<Longrightarrow> validate q (Some answer) = Valid"
  by (induction entries) (auto simp: Let_def split: if_splits)

lemma customPolicyNamePrompt_truthy:
  assumes "customPolicyNamePrompt op = Some name"
  shows "name \<noteq> []"
proof -
  have "policyName_validate (Some name) = Valid"
    using input_prompt_Valid [of policyName_question "policyName_entries op" name] assms
    by (simp add: customPolicyNamePrompt_def policyName_question_def)
  then show ?thesis by (auto simp: policyName_validate_def split: if_splits)
qed

lemma and_then_const_Returned:
  "and_then m (\<lambda>_. return c) w = (Returned x, w') \<Longrightarrow> x = c"
  by (auto simp: and_then_def split: prod.splits outcome.splits)

lemma policy_editor_Returned:
  assumes "policy_editor P op answers w = (Returned pn, w')"
  shows "defaultPolicy answers \<or> \<not> falsy pn"
proof (cases "defaultPolicy answers")
  case True
  then show ?thesis by simp
next
  case False
  show ?thesis
  proof (cases "customPolicyNamePrompt op")
    case None
    then show ?thesis using assms False by (simp add: policy_editor_def)
  next
    case (Some name)
    have "and_then
            (and_then
               (writeFileSync policy_file
                  (JSON_stringify P (policy_skeleton (bucketName answers)) 4))
               (\<lambda>_. customPolicyPrompt P op))
            (\<lambda>_. return (Some name)) w = (Returned pn, w')"
      using assms False Some by (simp add: policy_editor_def and_then_assoc)
    then have "pn = Some name" by (rule and_then_const_Returned)
    then show ?thesis using customPolicyNamePrompt_truthy [OF Some] by (simp add: falsy_def)
  qed
qed

lemma main_never_throws_Error: "never_throws (Error message) (main P op)"
proof (cases "userBucketPrompt (env P) op")
  case None
  then show ?thesis by (simp add: main_def never_throws_def)
next
  case (Some answers)
  have "never_throws (Error message)
          (and_then (policy_editor P op answers) (\<lambda>policyName. provision P answers policyName))"
  proof (rule never_throws_and_then_Returned [OF policy_editor_never_throws_Error])
    fix w x w'
    assume "policy_editor P op answers w = (Returned x, w')"
    then have "defaultPolicy answers \<or> \<not> falsy x" by (rule policy_editor_Returned)
    then show "fst (provision P answers x w') \<noteq> Threw (Error message)"
      by (rule never_throwsD [OF provision_never_throws_Error])
  qed
  then show ?thesis using Some by (simp add: main_def)
qed

lemma provision_never_throws_Aws_error:
  assumes "\<forall>config request. \<exists>output. aws P config request = Inr output"
  shows "never_throws (Aws_error code) (provision P answers pn)"
proof -
  have ok: "aws P config request \<noteq> Inl c" for config request c
    using assms by (metis Inl_Inr_False)
  show ?thesis
    unfolding provision_def op_defs Let_def
    by (auto intro!: never_throws_intros simp: ok split: option.splits)
qed

lemma provision_stops_Error:
  assumes "\<not> defaultPolicy answers" and "falsy pn"
    and "\<forall>config request. \<exists>output. aws P config request = Inr output"
  shows "fst (provision P answers pn w) = Threw (Error (js ''Policy name not found''))"
  using provision_stops [OF assms(1,2), of P w]
    never_throwsD [OF provision_never_throws_Aws_error [OF assms(3), of _ answers pn], of w]
  by (auto simp: stopped_before_policy_def split: outcome.splits js_error.splits)

lemma split_lines_no_newline: "newline \<notin> set s \<Longrightarrow> split_lines s = [s]"
  by (induction s) auto

lemma split_lines_append:
  "newline \<notin> set s \<Longrightarrow> split_lines (s @ newline # rest) = s # split_lines rest"
  by (induction s) auto

lemma newline_notin_js [simp]:
  "newline \<notin> set (js ''AWS_ACCESS_KEY_ID='')"
  "newline \<notin> set (js ''AWS_SECRET_ACCESS_KEY='')"
  "newline \<notin> set (js ''AWS_BUCKET_NAME='')"
  "newline \<notin> set (js ''AWS_REGION='')"
  by (simp_all add: js_def newline_def)

lemma and_then_writeFileSync:
  "and_then (writeFileSync path data) f w =
     f () (w\<lparr>files := (files w)(path \<mapsto> data), trace := trace w @ [Write_file path data]\<rparr>)"
  by (simp add: and_then_def writeFileSync_def)

lemma policies_prompt_trace: "trace (snd (policies_prompt P edits w)) = trace w"
  by (induction edits arbitrary: w) (simp_all add: readFileSync_def)

lemma editor_prompt_cases:
  "editor_prompt P entries w =
     (if entries \<noteq> [] \<and> Bun_openInEditor P policy_file = None
      then (Returned (), w\<lparr>trace := trace w @ [Open_in_editor policy_file]\<rparr>)
      else (Waiting, w))"
  by (induction entries) (simp_all add: openInEditor_cases split: option.splits)

lemma example_aws_accepts: "\<exists>output. example_aws config request = Inr output"
  by (cases request) (simp_all add: example_aws_def)

lemma example_prompts:
  "userBucketPrompt example_env example_operator = Some example_answers"
  "customPolicyNamePrompt example_operator = Some (js ''uploads-policy'')"
  by (simp_all add: userBucketPrompt_def customPolicyNamePrompt_def example_operator_def
      example_answers_def example_env_def bucketName_question_def username_question_def
      appUrl_question_def region_question_def policyName_question_def
      bucketName_validate_def username_validate_def appUrl_validate_def policyName_validate_def
      bucketName_re_iff username_re_iff appUrl_re_iff policyName_re_iff
      bucket_char_def name_char_def lowercase_def uppercase_def digit_def
      http_url_def url_rest_def line_terminator_def js_def)

lemma provision_no_policy_call:
  assumes "\<not> defaultPolicy answers" and "falsy pn"
  shows "filter is_policy_call (trace (snd (provision P answers pn w)))
           = filter is_policy_call (trace w)"
  by (rule silentD [OF silent_provision_policy_call [OF assms]])

lemma main_no_Error: "fst (main P op w) \<noteq> Threw (Error message)"
  by (rule never_throwsD [OF main_never_throws_Error])

section \<open>The provisioning steps\<close>

text \<open>
  C2. For every bucket name, attaching the public-read policy first sends the request that
  sets the four public-access-block flags (\<open>BlockPublicAcls\<close>, \<open>IgnorePublicAcls\<close>,
  \<open>RestrictPublicBuckets\<close>, \<open>BlockPublicPolicy\<close>) to false and then, that request having
  succeeded, the request that sets a bucket policy whose single statement has \<open>Effect\<close>
  \<open>Allow\<close>, \<open>Principal\<close> \<open>*\<close>, \<open>Action\<close> \<open>["s3:GetObject"]\<close> and \<open>Resource\<close>
  \<open>["arn:aws:s3:::<bucketName>/public/*"]\<close>; it sends nothing else.
\<close>

theorem attachPublicBucketPolicy_requests:
  "trace (snd (attachPublicBucketPolicy P bucket reg w)) =
     trace w
     @ Aws_call (createS3Object (env P) reg)
         (S3_putPublicAccessBlock bucket
            \<lparr>BlockPublicAcls = False,
             IgnorePublicAcls = False,
             RestrictPublicBuckets = False,
             BlockPublicPolicy = False\<rparr>)
     # (case aws P (createS3Object (env P) reg)
               (S3_putPublicAccessBlock bucket
                  \<lparr>BlockPublicAcls = False,
                   IgnorePublicAcls = False,
                   RestrictPublicBuckets = False,
                   BlockPublicPolicy = False\<rparr>) of
          Inl code \<Rightarrow> []
        | Inr output \<Rightarrow>
            [Aws_call (createS3Object (env P) reg)
               (S3_putBucketPolicy bucket
                  (JSON_stringify P
                     (JObject
                        [(js ''Version'', JString (js ''2012-10-17'')),
                         (js ''Statement'',
                          JArray
                            [JObject
                               [(js ''Sid'', JString (js ''PublicReadGetObject'')),
                                (js ''Effect'', JString (js ''Allow'')),
                                (js ''Principal'', JString (js ''*'')),
                                (js ''Action'', JArray [JString (js ''s3:GetObject'')]),
                                (js ''Resource'',
                                 JArray
                                   [JString
                                      (js ''arn:aws:s3:::'' @ bucket @ js ''/public/*'')])]])])
                     0))])"
  by (auto simp: attachPublicBucketPolicy_def public_bucket_policy_def Let_def and_then_aws_send
      aws_send_unit split: sum.splits)

theorem attachPublicBucketPolicy_requests_witness:
  "trace (snd (attachPublicBucketPolicy example_platform (js ''my-app-assets'')
                 (Some (js ''eu-west-1'')) empty_world)) =
     [Aws_call
        \<lparr>client_region = Some (js ''eu-west-1''),
         accessKeyId = Some (js ''AKIAADMIN''),
         secretAccessKey = Some (js ''admin-secret'')\<rparr>
        (S3_putPublicAccessBlock (js ''my-app-assets'')
           \<lparr>BlockPublicAcls = False,
            IgnorePublicAcls = False,
            RestrictPublicBuckets = False,
            BlockPublicPolicy = False\<rparr>),
      Aws_call
        \<lparr>client_region = Some (js ''eu-west-1''),
         accessKeyId = Some (js ''AKIAADMIN''),
         secretAccessKey = Some (js ''admin-secret'')\<rparr>
        (S3_putBucketPolicy (js ''my-app-assets'')
           (JSON_stringify example_platform
              (JObject
                 [(js ''Version'', JString (js ''2012-10-17'')),
                  (js ''Statement'',
                   JArray
                     [JObject
                        [(js ''Sid'', JString (js ''PublicReadGetObject'')),
                         (js ''Effect'', JString (js ''Allow'')),
                         (js ''Principal'', JString (js ''*'')),
                         (js ''Action'', JArray [JString (js ''s3:GetObject'')]),
                         (js ''Resource'',
                          JArray [JString (js ''arn:aws:s3:::my-app-assets/public/*'')])]])])
              0))]"
proof -
  have "env example_platform = example_env" and "aws example_platform = example_aws"
    by (simp_all add: example_platform_def)
  then show ?thesis
    using attachPublicBucketPolicy_requests
      [of example_platform "js ''my-app-assets''" "Some (js ''eu-west-1'')" empty_world]
    by (simp add: example_aws_def example_env_def empty_world_def createS3Object_def
        region_or_default_def falsy_def js_def)
qed

text \<open>
  C3. For every bucket name, the default-policy helper registers a managed policy named
  \<open>default-<bucketName>-policy\<close> whose single statement has \<open>Action\<close>
  \<open>["s3:PutObject","s3:GetObject"]\<close> and \<open>Resource\<close> \<open>["arn:aws:s3:::<bucketName>/*"]\<close>, and,
  the registration having succeeded, returns
  \<open>arn:aws:iam::<accountId>:policy/default-<bucketName>-policy\<close> with the account of the
  environment variable \<open>AWS_ACCOUNT_ID\<close>; the registration is the only request it sends.
\<close>

theorem getDefaultUserPolicy_result:
  assumes "AWS_ACCOUNT_ID (env P) = Some accountId"
    and "aws P (createIamObject (env P) reg)
           (IAM_createPolicy (js ''default-'' @ bucket @ js ''-policy'')
              (JSON_stringify P
                 (JObject
                    [(js ''Version'', JString (js ''2012-10-17'')),
                     (js ''Statement'',
                      JArray
                        [JObject
                           [(js ''Effect'', JString (js ''Allow'')),
                            (js ''Action'',
                             JArray [JString (js ''s3:PutObject''), JString (js ''s3:GetObject'')]),
                            (js ''Resource'',
                             JArray [JString (js ''arn:aws:s3:::'' @ bucket @ js ''/*'')])]])])
                 0))
         = Inr output"
  shows "getDefaultUserPolicy P bucket reg w =
     (Returned (js ''arn:aws:iam::'' @ accountId @ js '':policy/default-'' @ bucket @ js ''-policy''),
      w\<lparr>trace := trace w
         @ [Aws_call (createIamObject (env P) reg)
              (IAM_createPolicy (js ''default-'' @ bucket @ js ''-policy'')
                 (JSON_stringify P
                    (JObject
                       [(js ''Version'', JString (js ''2012-10-17'')),
                        (js ''Statement'',
                         JArray
                           [JObject
                              [(js ''Effect'', JString (js ''Allow'')),
                               (js ''Action'',
                                JArray
                                  [JString (js ''s3:PutObject''), JString (js ''s3:GetObject'')]),
                               (js ''Resource'',
                                JArray [JString (js ''arn:aws:s3:::'' @ bucket @ js ''/*'')])]])])
                    0)),
            Console_log (js ''Policy created'')]\<rparr>)"
  using assms
  by (simp add: getDefaultUserPolicy_def createPolicy_def default_user_policy_def
      and_then_assoc and_then_aws_send console_log_def and_then_emit tpl_def)

theorem getDefaultUserPolicy_result_witness:
  "AWS_ACCOUNT_ID (env example_platform) = Some (js ''123456789012'')
   \<and> getDefaultUserPolicy example_platform (js ''my-app-assets'') None empty_world =
     (Returned (js ''arn:aws:iam::123456789012:policy/default-my-app-assets-policy''),
      \<lparr>files = Map.empty,
       trace =
         [Aws_call
            \<lparr>client_region = Some (js ''us-east-1''),
             accessKeyId = Some (js ''AKIAADMIN''),
             secretAccessKey = Some (js ''admin-secret'')\<rparr>
            (IAM_createPolicy (js ''default-my-app-assets-policy'')
               (JSON_stringify example_platform
                  (JObject
                     [(js ''Version'', JString (js ''2012-10-17'')),
                      (js ''Statement'',
                       JArray
                         [JObject
                            [(js ''Effect'', JString (js ''Allow'')),
                             (js ''Action'',
                              JArray
                                [JString (js ''s3:PutObject''), JString (js ''s3:GetObject'')]),
                             (js ''Resource'',
                              JArray [JString (js ''arn:aws:s3:::my-app-assets/*'')])]])])
                  0)),
          Console_log (js ''Policy created'')]\<rparr>)"
proof -
  have e: "env example_platform = example_env" and a: "aws example_platform = example_aws"
    by (simp_all add: example_platform_def)
  have account: "AWS_ACCOUNT_ID (env example_platform) = Some (js ''123456789012'')"
    by (simp add: e example_env_def)
  have accepted: "aws example_platform config request = Inr \<lparr>AccessKey = None\<rparr>"
    if "request = IAM_createPolicy name document" for config request name document
    using that by (simp add: a example_aws_def)
  show ?thesis
    using account getDefaultUserPolicy_result [OF account accepted [OF refl],
        of "js ''my-app-assets''" None empty_world]
    by (simp add: e example_env_def empty_world_def createIamObject_def
        region_or_default_def falsy_def js_def)
qed

section \<open>The files of a run\<close>

text \<open>
  C7. For every access-key ID, secret, bucket name and region, the credentials are written
  to the file \<open>.env.<bucketName>\<close>, whatever that file held before, after one line of log
  and with no other event; the content is the four assignments \<open>AWS_ACCESS_KEY_ID\<close>,
  \<open>AWS_SECRET_ACCESS_KEY\<close>, \<open>AWS_BUCKET_NAME\<close>, \<open>AWS_REGION\<close> in this order, separated by
  line feeds: four lines exactly when none of the four values holds a line feed.
\<close>

theorem write_credentials_file:
  "(let content =
          js ''AWS_ACCESS_KEY_ID='' @ keyId @ [newline]
          @ js ''AWS_SECRET_ACCESS_KEY='' @ secret @ [newline]
          @ js ''AWS_BUCKET_NAME='' @ bucket @ [newline]
          @ js ''AWS_REGION='' @ reg;
        after =
          write_credentials \<lparr>AccessKeyId = Some keyId, SecretAccessKey = Some secret\<rparr>
            bucket (Some reg) w
    in fst after = Returned ()
       \<and> files (snd after) = (files w)(js ''.env.'' @ bucket \<mapsto> content)
       \<and> trace (snd after) =
           trace w
           @ [Console_log (js ''Creating .env file...''),
              Write_file (js ''.env.'' @ bucket) content]
       \<and> (newline \<notin> set keyId \<union> set secret \<union> set bucket \<union> set reg \<longrightarrow>
            split_lines content =
              [js ''AWS_ACCESS_KEY_ID='' @ keyId,
               js ''AWS_SECRET_ACCESS_KEY='' @ secret,
               js ''AWS_BUCKET_NAME='' @ bucket,
               js ''AWS_REGION='' @ reg]))"
proof -
  have lines: "split_lines
          (js ''AWS_ACCESS_KEY_ID='' @ keyId @ [newline]
          @ js ''AWS_SECRET_ACCESS_KEY='' @ secret @ [newline]
          @ js ''AWS_BUCKET_NAME='' @ bucket @ [newline]
          @ js ''AWS_REGION='' @ reg) =
              [js ''AWS_ACCESS_KEY_ID='' @ keyId,
               js ''AWS_SECRET_ACCESS_KEY='' @ secret,
               js ''AWS_BUCKET_NAME='' @ bucket,
               js ''AWS_REGION='' @ reg]"
    if "newline \<notin> set keyId \<union> set secret \<union> set bucket \<union> set reg"
  proof -
    have 1: "newline \<notin> set (js ''AWS_ACCESS_KEY_ID='' @ keyId)"
      and 2: "newline \<notin> set (js ''AWS_SECRET_ACCESS_KEY='' @ secret)"
      and 3: "newline \<notin> set (js ''AWS_BUCKET_NAME='' @ bucket)"
      and 4: "newline \<notin> set (js ''AWS_REGION='' @ reg)"
      using that by simp_all
    show ?thesis
      using split_lines_append [OF 1] split_lines_append [OF 2] split_lines_append [OF 3]
        split_lines_no_newline [OF 4]
      by simp
  qed
  show ?thesis
    using lines
    by (simp add: Let_def write_credentials_def env_file_content_def tpl_def console_log_def
        and_then_emit writeFileSync_def)
qed

theorem write_credentials_file_witness:
  "files
     (snd (write_credentials
             \<lparr>AccessKeyId = Some (js ''AKIADEPLOYER''),
              SecretAccessKey = Some (js ''deployer-secret'')\<rparr>
             (js ''my-app-assets'') (Some (js ''us-east-1''))
             \<lparr>files = [js ''.env.my-app-assets'' \<mapsto> js ''an older file''], trace = []\<rparr>))
     (js ''.env.my-app-assets'')
   = Some (js ''AWS_ACCESS_KEY_ID=AKIADEPLOYER'' @ [newline]
           @ js ''AWS_SECRET_ACCESS_KEY=deployer-secret'' @ [newline]
           @ js ''AWS_BUCKET_NAME=my-app-assets'' @ [newline]
           @ js ''AWS_REGION=us-east-1'')
   \<and> split_lines
        (js ''AWS_ACCESS_KEY_ID=AKIADEPLOYER'' @ [newline]
         @ js ''AWS_SECRET_ACCESS_KEY=deployer-secret'' @ [newline]
         @ js ''AWS_BUCKET_NAME=my-app-assets'' @ [newline]
         @ js ''AWS_REGION=us-east-1'')
      = [js ''AWS_ACCESS_KEY_ID=AKIADEPLOYER'',
         js ''AWS_SECRET_ACCESS_KEY=deployer-secret'',
         js ''AWS_BUCKET_NAME=my-app-assets'',
         js ''AWS_REGION=us-east-1'']"
  using write_credentials_file
    [of "js ''AKIADEPLOYER''" "js ''deployer-secret''" "js ''my-app-assets''" "js ''us-east-1''"
       "\<lparr>files = [js ''.env.my-app-assets'' \<mapsto> js ''an older file''], trace = []\<rparr>"]
  by (simp add: Let_def js_def newline_def)

text \<open>
  C8. When the operator chooses a custom policy and has named it, the run writes to
  \<open>custom-bucket-policy.json\<close> the text of a document with \<open>Version\<close> \<open>2012-10-17\<close> and one
  statement whose \<open>Effect\<close> is \<open>Allow\<close>, whose \<open>Action\<close> is the empty array and whose
  \<open>Resource\<close> is \<open>["arn:aws:s3:::<bucketName>/*"]\<close>, indented by 4, for every bucket name.
  This write is the first thing the run does; the only event that may follow before the
  provisioning is the opening of the editor on that file, which happens once, when the
  operator submits the question \<open>editor\<close> and an editor opens. Until the operator saves an
  edit, the file holds that text and no other file has changed.
\<close>

theorem policy_editor_skeleton:
  assumes "\<not> defaultPolicy answers" and "customPolicyNamePrompt op = Some name"
  shows "trace (snd (policy_editor P op answers w)) =
     trace w
     @ Write_file (js ''custom-bucket-policy.json'')
         (JSON_stringify P
            (JObject
               [(js ''Version'', JString (js ''2012-10-17'')),
                (js ''Statement'',
                 JArray
                   [JObject
                      [(js ''Effect'', JString (js ''Allow'')),
                       (js ''Action'', JArray []),
                       (js ''Resource'',
                        JArray
                          [JString (js ''arn:aws:s3:::'' @ bucketName answers @ js ''/*'')])]])])
            4)
     # (if editor_entries op \<noteq> []
            \<and> Bun_openInEditor P (js ''custom-bucket-policy.json'') = None
        then [Open_in_editor (js ''custom-bucket-policy.json'')]
        else [])
   \<and> files (snd (policy_editor P (op\<lparr>policy_file_edits := []\<rparr>) answers w)) =
       (files w)
         (js ''custom-bucket-policy.json'' \<mapsto>
            JSON_stringify P
              (JObject
                 [(js ''Version'', JString (js ''2012-10-17'')),
                  (js ''Statement'',
                   JArray
                     [JObject
                        [(js ''Effect'', JString (js ''Allow'')),
                         (js ''Action'', JArray []),
                         (js ''Resource'',
                          JArray
                            [JString (js ''arn:aws:s3:::'' @ bucketName answers @ js ''/*'')])]])])
              4)"
proof -
  let ?text = "JSON_stringify P (policy_skeleton (bucketName answers)) 4"
  let ?written =
    "w\<lparr>files := (files w)(policy_file \<mapsto> ?text),
       trace := trace w @ [Write_file policy_file ?text]\<rparr>"
  have run: "policy_editor P o' answers w =
     and_then (editor_prompt P (editor_entries o'))
       (\<lambda>_. and_then (policies_prompt P (policy_file_edits o')) (\<lambda>_. return (Some name)))
       ?written"
    if "customPolicyNamePrompt o' = Some name" for o'
    using assms(1) that
    by (simp add: policy_editor_def customPolicyPrompt_def and_then_assoc
        and_then_writeFileSync)
  have asked: "trace (snd (and_then (policies_prompt P edits) (\<lambda>_. return (Some name)) v))
      = trace v" for edits v
    using policies_prompt_trace [of P edits v]
    by (auto simp: and_then_def split: prod.splits outcome.splits)
  have events: "trace (snd (policy_editor P op answers w)) =
     trace w @ Write_file policy_file ?text
       # (if editor_entries op \<noteq> [] \<and> Bun_openInEditor P policy_file = None
          then [Open_in_editor policy_file] else [])"
    using asked
    by (simp add: run [OF assms(2)] and_then_def editor_prompt_cases)
  have same: "customPolicyNamePrompt (op\<lparr>policy_file_edits := []\<rparr>) = Some name"
    using assms(2) by (simp add: customPolicyNamePrompt_def)
  have kept: "files (snd (policy_editor P (op\<lparr>policy_file_edits := []\<rparr>) answers w)) =
     (files w)(policy_file \<mapsto> ?text)"
    by (simp add: run [OF same] and_then_def editor_prompt_cases)
  show ?thesis
    using events kept by (simp add: policy_file_def policy_skeleton_def)
qed

theorem policy_editor_skeleton_witness:
  "\<not> defaultPolicy example_answers
   \<and> customPolicyNamePrompt example_operator = Some (js ''uploads-policy'')
   \<and> trace (snd (policy_editor example_platform example_operator example_answers empty_world)) =
     [Write_file (js ''custom-bucket-policy.json'')
        (JSON_stringify example_platform
           (JObject
              [(js ''Version'', JString (js ''2012-10-17'')),
               (js ''Statement'',
                JArray
                  [JObject
                     [(js ''Effect'', JString (js ''Allow'')),
                      (js ''Action'', JArray []),
                      (js ''Resource'', JArray [JString (js ''arn:aws:s3:::my-app-assets/*'')])]])])
           4),
      Open_in_editor (js ''custom-bucket-policy.json'')]
   \<and> trace (snd (policy_editor example_platform_no_editor example_operator example_answers
                    empty_world)) =
     [Write_file (js ''custom-bucket-policy.json'')
        (JSON_stringify example_platform_no_editor
           (JObject
              [(js ''Version'', JString (js ''2012-10-17'')),
               (js ''Statement'',
                JArray
                  [JObject
                     [(js ''Effect'', JString (js ''Allow'')),
                      (js ''Action'', JArray []),
                      (js ''Resource'', JArray [JString (js ''arn:aws:s3:::my-app-assets/*'')])]])])
           4)]
   \<and> files (snd (policy_editor example_platform (example_operator\<lparr>policy_file_edits := []\<rparr>)
                    example_answers empty_world))
       (js ''custom-bucket-policy.json'') =
     Some (JSON_stringify example_platform
             (JObject
                [(js ''Version'', JString (js ''2012-10-17'')),
                 (js ''Statement'',
                  JArray
                    [JObject
                       [(js ''Effect'', JString (js ''Allow'')),
                        (js ''Action'', JArray []),
                        (js ''Resource'',
                         JArray [JString (js ''arn:aws:s3:::my-app-assets/*'')])]])])
             4)"
proof -
  have custom: "\<not> defaultPolicy example_answers"
    by (simp add: example_answers_def)
  have entries: "editor_entries example_operator \<noteq> []"
    by (simp add: example_operator_def)
  have found: "Bun_openInEditor example_platform path = None"
    and missing: "Bun_openInEditor example_platform_no_editor path \<noteq> None" for path
    by (simp_all add: example_platform_def example_platform_no_editor_def)
  show ?thesis
    using custom example_prompts(2) entries found missing
      policy_editor_skeleton [OF custom example_prompts(2), of example_platform empty_world]
      policy_editor_skeleton [OF custom example_prompts(2), of example_platform_no_editor
        empty_world]
    by (simp add: example_answers_def empty_world_def js_def)
qed

section \<open>The order of a run\<close>

text \<open>
  C9. If a custom policy was selected and the variable \<open>policyName\<close> holds no name
  (undefined or empty) when the provisioning starts, the run ends in an error, which is
  \<open>Policy name not found\<close> unless the service failed before, and sends neither the
  create-policy nor the attach-user-policy request; when the service accepts every request
  the error is \<open>Policy name not found\<close>. No run of the whole flow ends in that error: the
  custom-policy branch stores the name the prompt returned, which passed its validator.
\<close>

theorem policy_name_not_found:
  "(\<not> defaultPolicy answers \<and> falsy pn \<longrightarrow>
      stopped_before_policy (fst (provision P answers pn w))
      \<and> filter is_policy_call (trace (snd (provision P answers pn w)))
          = filter is_policy_call (trace w)
      \<and> ((\<forall>config request. \<exists>output. aws P config request = Inr output) \<longrightarrow>
           fst (provision P answers pn w) = Threw (Error (js ''Policy name not found''))))
   \<and> fst (main P op v) \<noteq> Threw (Error (js ''Policy name not found''))"
  using provision_stops [where answers = answers and pn = pn and P = P and w = w]
    provision_no_policy_call [where answers = answers and pn = pn and P = P and w = w]
    provision_stops_Error [where answers = answers and pn = pn and P = P and w = w]
    main_no_Error [where message = "js ''Policy name not found''" and P = P and op = op
      and w = v]
  by blast

theorem policy_name_not_found_witness:
  "\<not> defaultPolicy example_answers \<and> falsy None
   \<and> fst (provision example_platform example_answers None empty_world)
       = Threw (Error (js ''Policy name not found''))
   \<and> filter is_policy_call
        (trace (snd (provision example_platform example_answers None empty_world))) = []
   \<and> fst (main example_platform example_operator empty_world)
       \<noteq> Threw (Error (js ''Policy name not found''))"
proof -
  have custom: "\<not> defaultPolicy example_answers"
    by (simp add: example_answers_def)
  have accepts: "\<forall>config request. \<exists>output. aws example_platform config request = Inr output"
    by (simp add: example_platform_def example_aws_accepts)
  show ?thesis
    using custom accepts
      policy_name_not_found
        [where answers = example_answers and pn = None and P = example_platform
           and w = empty_world and op = example_operator and v = empty_world]
    by (simp add: falsy_def empty_world_def)
qed

text \<open>
  C10. No run of the flow sends a request that uploads an object, whatever the answer to the
  public-read question: \<open>createBucketFolders\<close>, whose first request is the upload of
  \<open>public/\<close>, followed by that of \<open>private/\<close>, is not called.
\<close>

theorem main_uploads_nothing:
  "filter is_putObject (trace (snd (main P op w))) = filter is_putObject (trace w)
   \<and> trace (snd (createBucketFolders P bucket reg w)) =
       trace w
       @ Aws_call (createS3Object (env P) reg) (S3_putObject bucket (js ''public/''))
       # (case aws P (createS3Object (env P) reg) (S3_putObject bucket (js ''public/'')) of
            Inl code \<Rightarrow> []
          | Inr output \<Rightarrow>
              [Aws_call (createS3Object (env P) reg) (S3_putObject bucket (js ''private/''))])"
proof -
  have "trace (snd (createBucketFolders P bucket reg w)) =
       trace w
       @ Aws_call (createS3Object (env P) reg) (S3_putObject bucket (js ''public/''))
       # (case aws P (createS3Object (env P) reg) (S3_putObject bucket (js ''public/'')) of
            Inl code \<Rightarrow> []
          | Inr output \<Rightarrow>
              [Aws_call (createS3Object (env P) reg) (S3_putObject bucket (js ''private/''))])"
    by (auto simp: createBucketFolders_def Let_def and_then_aws_send aws_send_unit
        split: sum.splits)
  then show ?thesis
    using silentD [OF silent_main_putObject, of P op w] by simp
qed

theorem main_uploads_nothing_witness:
  "filter is_putObject (trace (snd (main example_platform example_operator empty_world))) = []
   \<and> filter is_putObject
        (trace (snd (createBucketFolders example_platform (js ''my-app-assets'') None
                       empty_world))) =
       [Aws_call
          \<lparr>client_region = Some (js ''us-east-1''),
           accessKeyId = Some (js ''AKIAADMIN''),
           secretAccessKey = Some (js ''admin-secret'')\<rparr>
          (S3_putObject (js ''my-app-assets'') (js ''public/'')),
        Aws_call
          \<lparr>client_region = Some (js ''us-east-1''),
           accessKeyId = Some (js ''AKIAADMIN''),
           secretAccessKey = Some (js ''admin-secret'')\<rparr>
          (S3_putObject (js ''my-app-assets'') (js ''private/''))]"
proof -
  have "env example_platform = example_env" and "aws example_platform = example_aws"
    by (simp_all add: example_platform_def)
  then show ?thesis
    using main_uploads_nothing
      [where P = example_platform and op = example_operator and w = empty_world
         and bucket = "js ''my-app-assets''" and reg = None]
    by (simp add: example_aws_def example_env_def empty_world_def createS3Object_def
        region_or_default_def falsy_def js_def)
qed

end
